theory Spec2Isabelle
  imports Complex_Main
begin

section \<open>The data model (types.ts)\<close>

text \<open>
  The entity types of the dashboard. A TypeScript interface is a record, a union of string
  literals a datatype, an optional property an \<open>option\<close> (a property that is absent and one
  that holds \<open>undefined\<close> are both \<open>None\<close>). Field names are the source's, prefixed by the
  name of the interface, since several interfaces share \<open>id\<close>, \<open>donorId\<close>, \<open>status\<close>.
  A JavaScript \<open>number\<close> is a finite value, here a rational, or one of \<open>NaN\<close>,
  \<open>Infinity\<close> and \<open>-Infinity\<close>; the two zeros are one value. No action computes with an
  amount.
\<close>

datatype number = Finite rat | NaN | Infinity | Negative_Infinity

datatype payment_method = Online | Cash

datatype purpose =
  Sadaqa_Hadiya_Atiyat | Zakat | Fitrana | Qurbani | Sponsor_a_Child | Clean_Water
  | Sasti_Roti | Disaster_Management | Custom

datatype recurring = Rec_None | Rec_Weekly | Rec_Monthly | Rec_Annually

datatype frequency = Monthly | Annually | Weekly

datatype pledge_status = Pending | Due | Completed

datatype profile_status = Active | Paused | Cancelled

datatype user_status = User_Active | User_Inactive

datatype outbox_status = Ready_to_Send | Sent | Failed

datatype queue_status = Queued | Queue_Sent | Queue_Failed

datatype log_channel = Log_Email | Log_WhatsApp | Call | Meeting | Print | Download

datatype channel = Email | WhatsApp

datatype template_type = DonationThankYou | PledgeReminder | GeneralUpdate

datatype permission =
  donors_view | donors_create | donors_edit | donors_delete
  | receipts_view | receipts_create | receipts_delete
  | reports_view | settings_manage | users_manage

record DonationHistory =
  history_date :: string
  history_amount :: number
  history_receiptId :: string

record CommunicationLog =
  log_id :: string
  log_date :: string
  log_channel :: log_channel
  log_subjectOrTemplate :: string
  log_notes :: string
  log_userId :: string

record Contact =
  contact_id :: string
  contact_name :: string
  contact_relationship :: string
  contact_email :: string
  contact_phone :: string
  contact_isPrimary :: bool

record Tag =
  tag_id :: string
  tag_name :: string
  tag_color :: string

record Donor =
  donor_id :: string
  donor_name :: string
  donor_email :: string
  donor_phone :: string
  donor_address :: string
  donor_joinDate :: string
  donor_donationHistory :: "DonationHistory list"
  donor_tagIds :: "string list option"
  donor_notes :: "string option"
  donor_communicationLogs :: "CommunicationLog list option"
  donor_contacts :: "Contact list option"

record Donation =
  donation_id :: string
  donation_donorId :: string
  donation_amount :: number
  donation_date :: string
  donation_method :: payment_method
  donation_purpose :: purpose
  donation_customPurpose :: "string option"
  donation_recurring :: recurring

record PledgeTask =
  task_id :: string
  task_description :: string
  task_completed :: bool

record Pledge =
  pledge_id :: string
  pledge_donorId :: string
  pledge_amount :: number
  pledge_dueDate :: string
  pledge_status :: pledge_status
  pledge_tasks :: "PledgeTask list option"

record RecurringProfile =
  profile_id :: string
  profile_donorId :: string
  profile_amount :: number
  profile_frequency :: frequency
  profile_startDate :: string
  profile_nextDueDate :: string
  profile_status :: profile_status
  profile_purpose :: purpose
  profile_customPurpose :: "string option"
  profile_method :: payment_method

record Role =
  role_id :: string
  role_name :: string
  role_permissions :: "permission list"
  role_isSystemRole :: "bool option"

record User =
  user_id :: string
  user_name :: string
  user_email :: string
  user_roleId :: string
  user_status :: user_status
  user_avatar :: "string option"
  user_lastLogin :: string

record CommunicationTemplate =
  template_id :: string
  template_name :: string
  template_type :: template_type
  template_channel :: channel
  template_subject :: "string option"
  template_body :: string

record OrganizationSettings =
  settings_name :: string
  settings_logo :: string
  settings_address :: string
  settings_website :: string
  settings_phone :: string
  settings_email :: string
  settings_whatsappNumber :: string
  settings_receiptThankYouMessage :: string
  settings_communicationTemplates :: "CommunicationTemplate list"
  settings_tags :: "Tag list"

text \<open>
  \<open>OutboxItem\<close> is the intersection of the common fields with the union
  \<open>ReceiptOutboxInfo | TemplateOutboxInfo\<close>, discriminated by \<open>type\<close>.
\<close>

datatype outbox_info =
  Receipt (receipt_donationId: string)
  | Template (template_donorId: string) (template_templateId: string)

record OutboxItem =
  outbox_id :: string
  outbox_status :: outbox_status
  outbox_addedAt :: string
  outbox_sentAt :: "string option"
  outbox_error :: "string option"
  outbox_info :: outbox_info

record QueuedCommunication =
  queued_id :: string
  queued_donorId :: string
  queued_templateId :: string
  queued_channel :: channel
  queued_status :: queue_status
  queued_queuedAt :: string
  queued_sentAt :: "string option"
  queued_error :: "string option"

record Backup =
  backup_id :: string
  backup_date :: string
  backup_size :: nat
  backup_data :: string

section \<open>The entity store (the state cells of useData)\<close>

record store =
  donors :: "Donor list"
  donations :: "Donation list"
  pledges :: "Pledge list"
  recurringProfiles :: "RecurringProfile list"
  users :: "User list"
  roles :: "Role list"
  settings :: OrganizationSettings
  outbox :: "OutboxItem list"
  communicationQueue :: "QueuedCommunication list"
  tags :: "Tag list"
  backups :: "Backup list"


section \<open>The host: clock, time zone, random numbers, JSON\<close>

text \<open>
  A value of a state cell: \<open>null\<close>, a boolean, a number, a string, an array or an object,
  which is the list of its own properties. \<open>JSON.parse\<close> returns such values.
\<close>

datatype json =
  JNull
  | JBool bool
  | JNumber number
  | JString string
  | JArray "json list"
  | JObject "(string \<times> json) list"

text \<open>
  What the hook takes from the JavaScript host rather than from its arguments:
  \<open>Date.now()\<close> in milliseconds since the epoch (one reading for each call of an action),
  the offset of the local time zone in minutes east of UTC (a zone without daylight saving),
  the text of the \<open>k\<close>-th \<open>Math.random()\<close> of a call, the two functions of the
  built-in \<open>JSON\<close> object, \<open>JSON_parse\<close> giving \<open>None\<close> where the built-in throws a
  SyntaxError, and what \<open>new Date(text)\<close> makes of a text that the language leaves to the
  engine: a time value, or \<open>None\<close> for an invalid Date.
\<close>

record host =
  now :: nat
  timezone :: int
  random :: "nat \<Rightarrow> string"
  JSON_parse :: "string \<Rightarrow> json option"
  JSON_stringify :: "json \<Rightarrow> string"
  Date_parse_other :: "string \<Rightarrow> int option"

datatype error = BackupNotFound | SyntaxError | TypeError | RangeError

subsection \<open>Numbers in template literals\<close>

definition digit :: "nat \<Rightarrow> char" where
  "digit d = ''0123456789'' ! d"

fun decimal :: "nat \<Rightarrow> string" where
  "decimal n = (if n < 10 then [digit n] else decimal (n div 10) @ [digit (n mod 10)])"

declare decimal.simps [simp del]

definition pad2 :: "nat \<Rightarrow> string" where
  "pad2 n = [digit (n div 10 mod 10), digit (n mod 10)]"

definition pad3 :: "nat \<Rightarrow> string" where
  "pad3 n = digit (n div 100 mod 10) # pad2 n"

definition pad4 :: "nat \<Rightarrow> string" where
  "pad4 n = digit (n div 1000 mod 10) # pad3 n"

definition pad6 :: "nat \<Rightarrow> string" where
  "pad6 n = digit (n div 100000 mod 10) # digit (n div 10000 mod 10) # pad4 n"

subsection \<open>The Date object\<close>

text \<open>
  A time value is a number of milliseconds since 1970-01-01T00:00:00Z; a Date holds a time
  value or is invalid (\<open>None\<close>). Day numbers and calendar dates of the proleptic Gregorian
  calendar are converted by counting from 1 March of a 400-year era, which puts the leap day
  at the end of the counted year.
\<close>

definition msPerDay :: int where
  "msPerDay = 86400000"

definition msPerMinute :: int where
  "msPerMinute = 60000"

definition Day :: "int \<Rightarrow> int" where
  "Day t = t div msPerDay"

definition TimeWithinDay :: "int \<Rightarrow> int" where
  "TimeWithinDay t = t mod msPerDay"

definition days_from_march :: "int \<Rightarrow> int \<Rightarrow> int" where
  "days_from_march yoe doy = yoe * 365 + yoe div 4 - yoe div 100 + doy"

definition days_from_civil :: "int \<Rightarrow> int \<Rightarrow> int \<Rightarrow> int" where
  "days_from_civil y m d =
     (if m \<le> 2
      then ((y - 1) div 400) * 146097
           + days_from_march ((y - 1) mod 400) ((153 * (m + 9) + 2) div 5 + d - 1) - 719468
      else (y div 400) * 146097
           + days_from_march (y mod 400) ((153 * (m - 3) + 2) div 5 + d - 1) - 719468)"

definition civil_of_mp :: "int \<Rightarrow> int \<Rightarrow> int \<Rightarrow> int \<times> int \<times> int" where
  "civil_of_mp y doy mp =
     (if mp < 10 then (y, mp + 3, doy - (153 * mp + 2) div 5 + 1)
      else (y + 1, mp - 9, doy - (153 * mp + 2) div 5 + 1))"

definition civil_of_doy :: "int \<Rightarrow> int \<Rightarrow> int \<times> int \<times> int" where
  "civil_of_doy y doy = civil_of_mp y doy ((5 * doy + 2) div 153)"

definition civil_of_yoe :: "int \<Rightarrow> int \<Rightarrow> int \<Rightarrow> int \<times> int \<times> int" where
  "civil_of_yoe era doe yoe =
     civil_of_doy (yoe + era * 400) (doe - (365 * yoe + yoe div 4 - yoe div 100))"

definition civil_of_doe :: "int \<Rightarrow> int \<Rightarrow> int \<times> int \<times> int" where
  "civil_of_doe era doe =
     civil_of_yoe era doe ((doe - doe div 1460 + doe div 36524 - doe div 146096) div 365)"

definition civil_from_days :: "int \<Rightarrow> int \<times> int \<times> int" where
  "civil_from_days z = civil_of_doe ((z + 719468) div 146097) ((z + 719468) mod 146097)"

text \<open>Year, month (from 0) and day of the month of a time value, and the inverse.\<close>

definition YearFromTime :: "int \<Rightarrow> int" where
  "YearFromTime t = fst (civil_from_days (Day t))"

definition MonthFromTime :: "int \<Rightarrow> int" where
  "MonthFromTime t = fst (snd (civil_from_days (Day t))) - 1"

definition DateFromTime :: "int \<Rightarrow> int" where
  "DateFromTime t = snd (snd (civil_from_days (Day t)))"

definition MakeDay :: "int \<Rightarrow> int \<Rightarrow> int \<Rightarrow> int" where
  "MakeDay year month date =
     days_from_civil (year + month div 12) (month mod 12 + 1) 1 + date - 1"

definition MakeDate :: "int \<Rightarrow> int \<Rightarrow> int" where
  "MakeDate day time = day * msPerDay + time"

definition LocalTime :: "int \<Rightarrow> int \<Rightarrow> int" where
  "LocalTime tz t = t + tz * msPerMinute"

definition UTC :: "int \<Rightarrow> int \<Rightarrow> int" where
  "UTC tz t = t - tz * msPerMinute"

text \<open>
  \<open>new Date(text)\<close>. The date-only form \<open>YYYY-MM-DD\<close> of the ECMAScript date-time
  format, with a month and a day that exist, is read as midnight UTC of that day. Every
  other text is the engine's to read (the other forms of the format among them, which no
  date input of the dashboard produces): the host's \<open>Date_parse_other\<close>.
\<close>

definition digit_val :: "char \<Rightarrow> int option" where
  "digit_val c = (if c \<in> set ''0123456789'' then Some (int (of_char c) - 48) else None)"

fun number_of_digits :: "string \<Rightarrow> int option" where
  "number_of_digits [] = Some 0"
| "number_of_digits (c # cs) =
     (case digit_val (last (c # cs)) of
        None \<Rightarrow> None
      | Some v \<Rightarrow>
          (case number_of_digits (butlast (c # cs)) of
             None \<Rightarrow> None
           | Some n \<Rightarrow> Some (10 * n + v)))"

definition valid_civil :: "int \<Rightarrow> int \<Rightarrow> int \<Rightarrow> bool" where
  "valid_civil y m d \<longleftrightarrow>
     1 \<le> m \<and> m \<le> 12 \<and> 1 \<le> d \<and> civil_from_days (days_from_civil y m d) = (y, m, d)"

definition date_of_fields :: "int option \<Rightarrow> int option \<Rightarrow> int option \<Rightarrow> int option" where
  "date_of_fields yo mo dd =
     (case (yo, mo, dd) of
        (Some y, Some m, Some d) \<Rightarrow>
          if valid_civil y m d then Some (days_from_civil y m d * msPerDay) else None
      | _ \<Rightarrow> None)"

definition parse_date_only :: "string \<Rightarrow> int option" where
  "parse_date_only text =
     (if length text = 10 \<and> text ! 4 = CHR ''-'' \<and> text ! 7 = CHR ''-''
      then date_of_fields (number_of_digits (take 4 text))
             (number_of_digits (take 2 (drop 5 text)))
             (number_of_digits (take 2 (drop 8 text)))
      else None)"

definition Date_parse :: "host \<Rightarrow> string \<Rightarrow> int option" where
  "Date_parse h text =
     (case parse_date_only text of
        Some t \<Rightarrow> Some t
      | None \<Rightarrow> Date_parse_other h text)"

text \<open>The getters and setters \<open>calculateNextDueDate\<close> uses; all four work in local time.\<close>

definition getDate :: "int \<Rightarrow> int \<Rightarrow> int" where
  "getDate tz t = DateFromTime (LocalTime tz t)"

definition getMonth :: "int \<Rightarrow> int \<Rightarrow> int" where
  "getMonth tz t = MonthFromTime (LocalTime tz t)"

definition getFullYear :: "int \<Rightarrow> int \<Rightarrow> int" where
  "getFullYear tz t = YearFromTime (LocalTime tz t)"

definition setDate :: "int \<Rightarrow> int \<Rightarrow> int \<Rightarrow> int" where
  "setDate tz t date =
     UTC tz (MakeDate (MakeDay (YearFromTime (LocalTime tz t)) (MonthFromTime (LocalTime tz t)) date)
                      (TimeWithinDay (LocalTime tz t)))"

definition setMonth :: "int \<Rightarrow> int \<Rightarrow> int \<Rightarrow> int" where
  "setMonth tz t month =
     UTC tz (MakeDate (MakeDay (YearFromTime (LocalTime tz t)) month (DateFromTime (LocalTime tz t)))
                      (TimeWithinDay (LocalTime tz t)))"

definition setFullYear :: "int \<Rightarrow> int \<Rightarrow> int \<Rightarrow> int" where
  "setFullYear tz t year =
     UTC tz (MakeDate (MakeDay year (MonthFromTime (LocalTime tz t)) (DateFromTime (LocalTime tz t)))
                      (TimeWithinDay (LocalTime tz t)))"

text \<open>
  \<open>toISOString\<close> prints the UTC fields: \<open>YYYY-MM-DDTHH:mm:ss.sssZ\<close>, the year with a sign
  and six digits outside 0 to 9999.
\<close>

definition iso_year :: "int \<Rightarrow> string" where
  "iso_year y =
     (if 0 \<le> y \<and> y \<le> 9999 then pad4 (nat y)
      else if y < 0 then CHR ''-'' # pad6 (nat (- y))
      else CHR ''+'' # pad6 (nat y))"

definition iso_date :: "int \<times> int \<times> int \<Rightarrow> string" where
  "iso_date ymd =
     iso_year (fst ymd) @ ''-'' @ pad2 (nat (fst (snd ymd))) @ ''-'' @ pad2 (nat (snd (snd ymd)))"

definition iso_time :: "int \<Rightarrow> string" where
  "iso_time ms =
     pad2 (nat (ms div 3600000)) @ '':'' @ pad2 (nat (ms div 60000 mod 60)) @ '':''
       @ pad2 (nat (ms div 1000 mod 60)) @ ''.'' @ pad3 (nat (ms mod 1000))"

definition toISOString :: "int \<Rightarrow> string" where
  "toISOString t = iso_date (civil_from_days (Day t)) @ ''T'' @ iso_time (TimeWithinDay t) @ ''Z''"

definition before_T :: "string \<Rightarrow> string" where
  "before_T text = takeWhile (\<lambda>c. c \<noteq> CHR ''T'') text"

section \<open>The mutation layer (the actions of useData)\<close>

text \<open>
  Every action is \<open>async\<close> and changes the store through the setters of its state cells,
  each called with an updater function of the cell's current value. An action is modelled
  as a function from the store before the call to the store after it; an action that also
  returns a value the claims speak of returns a pair. \<open>new Set(ids)\<close> with \<open>has\<close> is
  membership in \<open>set ids\<close>. The function for \<open>actions.donors.delete\<close> is
  \<open>actions_donors_delete\<close>, and so on.

  The \<open>actions\<close> object is built anew in every render of the hook, and its functions
  close over the state cells as that render saw them. An updater gets the current value of
  its cell whatever the render; three actions also read cells of their render directly:
  \<open>roles.delete\<close> (\<open>roles\<close> and \<open>users\<close>), \<open>backups.create\<close> (the ten tracked cells)
  and \<open>backups.restore\<close> (\<open>backups\<close>). These take two stores: the store \<open>c\<close> of the
  render their \<open>actions\<close> object was built in, and the store \<open>s\<close> the setters write.
  The two are the same store when the action is the first call made on its \<open>actions\<close>
  object; after an earlier call on the same object, \<open>s\<close> has that call's writes and
  \<open>c\<close> has not.
\<close>

definition or_empty :: "'a list option \<Rightarrow> 'a list" where
  "or_empty xs = (case xs of None \<Rightarrow> [] | Some ys \<Rightarrow> ys)"

subsection \<open>donors\<close>

definition new_donor :: "host \<Rightarrow> Donor \<Rightarrow> Donor" where
  "new_donor h data = data\<lparr>donor_id := ''donor-'' @ decimal (now h), donor_donationHistory := []\<rparr>"

definition actions_donors_add :: "host \<Rightarrow> Donor \<Rightarrow> store \<Rightarrow> store" where
  "actions_donors_add h data s = s\<lparr>donors := donors s @ [new_donor h data]\<rparr>"

definition actions_donors_update :: "Donor \<Rightarrow> store \<Rightarrow> store" where
  "actions_donors_update data s =
     s\<lparr>donors := map (\<lambda>donor. if donor_id donor = donor_id data then data else donor) (donors s)\<rparr>"

definition actions_donors_delete :: "string \<Rightarrow> store \<Rightarrow> store" where
  "actions_donors_delete id' s =
     s\<lparr>donors := filter (\<lambda>donor. donor_id donor \<noteq> id') (donors s),
       donations := filter (\<lambda>donation. donation_donorId donation \<noteq> id') (donations s),
       pledges := filter (\<lambda>pledge. pledge_donorId pledge \<noteq> id') (pledges s)\<rparr>"

definition actions_donors_deleteBulk :: "string list \<Rightarrow> store \<Rightarrow> store" where
  "actions_donors_deleteBulk ids s =
     s\<lparr>donors := filter (\<lambda>donor. donor_id donor \<notin> set ids) (donors s),
       donations := filter (\<lambda>donation. donation_donorId donation \<notin> set ids) (donations s),
       pledges := filter (\<lambda>pledge. pledge_donorId pledge \<notin> set ids) (pledges s)\<rparr>"

definition add_log :: "CommunicationLog \<Rightarrow> Donor \<Rightarrow> Donor" where
  "add_log newLog donor =
     donor\<lparr>donor_communicationLogs := Some (or_empty (donor_communicationLogs donor) @ [newLog])\<rparr>"

definition actions_donors_logCommunication :: "host \<Rightarrow> string \<Rightarrow> CommunicationLog \<Rightarrow> store \<Rightarrow> store" where
  "actions_donors_logCommunication h donorId logData s =
     s\<lparr>donors :=
         map (\<lambda>donor. if donor_id donor = donorId
                       then add_log (logData\<lparr>log_id := ''comm-'' @ decimal (now h)\<rparr>) donor
                       else donor)
             (donors s)\<rparr>"

definition actions_donors_logCommunicationBulk ::
  "host \<Rightarrow> string list \<Rightarrow> CommunicationLog \<Rightarrow> store \<Rightarrow> store" where
  "actions_donors_logCommunicationBulk h donorIds logData s =
     s\<lparr>donors :=
         map (\<lambda>donor. if donor_id donor \<in> set donorIds
                       then add_log (logData\<lparr>log_id := ''comm-'' @ donor_id donor @ ''-''
                                                           @ decimal (now h)\<rparr>) donor
                       else donor)
             (donors s)\<rparr>"

subsection \<open>outbox\<close>

definition new_receipt_item :: "host \<Rightarrow> string \<Rightarrow> OutboxItem" where
  "new_receipt_item h donationId =
     \<lparr>outbox_id = ''outbox-'' @ decimal (now h),
      outbox_status = Ready_to_Send,
      outbox_addedAt = toISOString (int (now h)),
      outbox_sentAt = None,
      outbox_error = None,
      outbox_info = Receipt donationId\<rparr>"

definition actions_outbox_add :: "host \<Rightarrow> string \<Rightarrow> store \<Rightarrow> store" where
  "actions_outbox_add h donationId s = s\<lparr>outbox := new_receipt_item h donationId # outbox s\<rparr>"

definition new_template_item :: "host \<Rightarrow> string \<Rightarrow> string \<Rightarrow> OutboxItem" where
  "new_template_item h templateId donorId =
     \<lparr>outbox_id = ''outbox-'' @ decimal (now h) @ ''-'' @ donorId,
      outbox_status = Ready_to_Send,
      outbox_addedAt = toISOString (int (now h)),
      outbox_sentAt = None,
      outbox_error = None,
      outbox_info = Template donorId templateId\<rparr>"

definition actions_outbox_addBulk :: "host \<Rightarrow> string list \<Rightarrow> string \<Rightarrow> store \<Rightarrow> store" where
  "actions_outbox_addBulk h donorIds templateId s =
     s\<lparr>outbox := map (new_template_item h templateId) donorIds @ outbox s\<rparr>"

text \<open>
  \<open>error || item.error\<close> takes the argument unless it is \<open>undefined\<close> or the empty string.
\<close>

definition truthy_text :: "string option \<Rightarrow> bool" where
  "truthy_text t = (case t of None \<Rightarrow> False | Some text \<Rightarrow> text \<noteq> [])"

definition set_status :: "host \<Rightarrow> outbox_status \<Rightarrow> string option \<Rightarrow> OutboxItem \<Rightarrow> OutboxItem" where
  "set_status h status err item =
     item\<lparr>outbox_status := status,
          outbox_error := (if truthy_text err then err else outbox_error item),
          outbox_sentAt := (if status = Sent then Some (toISOString (int (now h)))
                            else outbox_sentAt item)\<rparr>"

definition actions_outbox_updateStatus ::
  "host \<Rightarrow> string \<Rightarrow> outbox_status \<Rightarrow> string option \<Rightarrow> store \<Rightarrow> store" where
  "actions_outbox_updateStatus h outboxId status err s =
     s\<lparr>outbox := map (\<lambda>item. if outbox_id item = outboxId then set_status h status err item
                               else item)
                      (outbox s)\<rparr>"

definition actions_outbox_retry :: "string \<Rightarrow> store \<Rightarrow> store" where
  "actions_outbox_retry outboxId s =
     s\<lparr>outbox := map (\<lambda>item. if outbox_id item = outboxId
                               then item\<lparr>outbox_status := Ready_to_Send, outbox_error := None\<rparr>
                               else item)
                      (outbox s)\<rparr>"

subsection \<open>recurring\<close>

text \<open>
  The argument of \<open>recurring.add\<close>: a RecurringProfile without \<open>id\<close>, \<open>status\<close> and
  \<open>nextDueDate\<close>.
\<close>

record NewRecurringProfile =
  new_donorId :: string
  new_amount :: number
  new_frequency :: frequency
  new_startDate :: string
  new_purpose :: purpose
  new_customPurpose :: "string option"
  new_method :: payment_method

definition add_week :: "int \<Rightarrow> frequency \<Rightarrow> int \<Rightarrow> int" where
  "add_week tz frequency t = (if frequency = Weekly then setDate tz t (getDate tz t + 7) else t)"

definition add_month :: "int \<Rightarrow> frequency \<Rightarrow> int \<Rightarrow> int" where
  "add_month tz frequency t = (if frequency = Monthly then setMonth tz t (getMonth tz t + 1) else t)"

definition add_year :: "int \<Rightarrow> frequency \<Rightarrow> int \<Rightarrow> int" where
  "add_year tz frequency t =
     (if frequency = Annually then setFullYear tz t (getFullYear tz t + 1) else t)"

text \<open>
  The three \<open>if\<close> statements run in the order of the source. On an invalid Date the setters
  do nothing and \<open>toISOString\<close> throws a RangeError.
\<close>

definition calculateNextDueDate :: "host \<Rightarrow> string \<Rightarrow> frequency \<Rightarrow> error + string" where
  "calculateNextDueDate h startDate frequency =
     (case Date_parse h startDate of
        None \<Rightarrow> Inl RangeError
      | Some d \<Rightarrow>
          Inr (before_T (toISOString
                 (add_year (timezone h) frequency
                    (add_month (timezone h) frequency (add_week (timezone h) frequency d))))))"

definition new_profile :: "host \<Rightarrow> NewRecurringProfile \<Rightarrow> string \<Rightarrow> RecurringProfile" where
  "new_profile h data nextDueDate =
     \<lparr>profile_id = ''rec-'' @ decimal (now h),
      profile_donorId = new_donorId data,
      profile_amount = new_amount data,
      profile_frequency = new_frequency data,
      profile_startDate = new_startDate data,
      profile_nextDueDate = nextDueDate,
      profile_status = Active,
      profile_purpose = new_purpose data,
      profile_customPurpose = new_customPurpose data,
      profile_method = new_method data\<rparr>"

definition actions_recurring_add :: "host \<Rightarrow> NewRecurringProfile \<Rightarrow> store \<Rightarrow> error + store" where
  "actions_recurring_add h data s =
     (case calculateNextDueDate h (new_startDate data) (new_frequency data) of
        Inl e \<Rightarrow> Inl e
      | Inr nextDueDate \<Rightarrow>
          Inr (s\<lparr>recurringProfiles := recurringProfiles s @ [new_profile h data nextDueDate]\<rparr>))"

definition actions_recurring_updateStatus :: "string \<Rightarrow> profile_status \<Rightarrow> store \<Rightarrow> store" where
  "actions_recurring_updateStatus id' status s =
     s\<lparr>recurringProfiles :=
         map (\<lambda>profile. if profile_id profile = id' then profile\<lparr>profile_status := status\<rparr>
                         else profile)
             (recurringProfiles s)\<rparr>"

definition actions_recurring_updateStatusBulk :: "string list \<Rightarrow> profile_status \<Rightarrow> store \<Rightarrow> store" where
  "actions_recurring_updateStatusBulk ids status s =
     s\<lparr>recurringProfiles :=
         map (\<lambda>profile. if profile_id profile \<in> set ids then profile\<lparr>profile_status := status\<rparr>
                         else profile)
             (recurringProfiles s)\<rparr>"

subsection \<open>donations\<close>

definition frequency_of :: "recurring \<Rightarrow> frequency option" where
  "frequency_of r =
     (case r of Rec_None \<Rightarrow> None | Rec_Weekly \<Rightarrow> Some Weekly | Rec_Monthly \<Rightarrow> Some Monthly
      | Rec_Annually \<Rightarrow> Some Annually)"

definition history_entry :: "Donation \<Rightarrow> DonationHistory" where
  "history_entry data =
     \<lparr>history_date = donation_date data, history_amount = donation_amount data,
      history_receiptId = donation_id data\<rparr>"

definition profile_of_donation :: "Donation \<Rightarrow> frequency \<Rightarrow> NewRecurringProfile" where
  "profile_of_donation data frequency =
     \<lparr>new_donorId = donation_donorId data,
      new_amount = donation_amount data,
      new_frequency = frequency,
      new_startDate = donation_date data,
      new_purpose = donation_purpose data,
      new_customPurpose = donation_customPurpose data,
      new_method = donation_method data\<rparr>"

text \<open>
  \<open>actions.recurring.add\<close> is called without \<open>await\<close>: when it throws, its promise is
  rejected and \<open>donations.add\<close> goes on, so the store keeps what the earlier steps wrote.
\<close>

definition add_recurring_of :: "host \<Rightarrow> Donation \<Rightarrow> store \<Rightarrow> store" where
  "add_recurring_of h data s =
     (case frequency_of (donation_recurring data) of
        None \<Rightarrow> s
      | Some frequency \<Rightarrow>
          (case actions_recurring_add h (profile_of_donation data frequency) s of
             Inl e \<Rightarrow> s
           | Inr s' \<Rightarrow> s'))"

definition add_history :: "Donation \<Rightarrow> store \<Rightarrow> store" where
  "add_history data s =
     s\<lparr>donors :=
         map (\<lambda>donor. if donor_id donor = donation_donorId data
                       then donor\<lparr>donor_donationHistory :=
                                    donor_donationHistory donor @ [history_entry data]\<rparr>
                       else donor)
             (donors s)\<rparr>"

definition actions_donations_add :: "host \<Rightarrow> Donation \<Rightarrow> store \<Rightarrow> store" where
  "actions_donations_add h data s =
     add_recurring_of h data
       (actions_outbox_add h (donation_id data)
          (add_history data (s\<lparr>donations := donations s @ [data]\<rparr>)))"

definition keeps_item :: "string list \<Rightarrow> OutboxItem \<Rightarrow> bool" where
  "keeps_item ids item =
     (case outbox_info item of Receipt donationId \<Rightarrow> donationId \<notin> set ids | Template _ _ \<Rightarrow> True)"

definition actions_donations_deleteBulk :: "string list \<Rightarrow> store \<Rightarrow> store" where
  "actions_donations_deleteBulk ids s =
     s\<lparr>donations := filter (\<lambda>donation. donation_id donation \<notin> set ids) (donations s),
       outbox := filter (keeps_item ids) (outbox s)\<rparr>"


subsection \<open>pledges\<close>

definition new_pledge :: "host \<Rightarrow> Pledge \<Rightarrow> Pledge" where
  "new_pledge h data =
     data\<lparr>pledge_id := ''pledge-'' @ decimal (now h), pledge_status := Pending,
          pledge_tasks := Some []\<rparr>"

definition actions_pledges_add :: "host \<Rightarrow> Pledge \<Rightarrow> store \<Rightarrow> store" where
  "actions_pledges_add h data s = s\<lparr>pledges := pledges s @ [new_pledge h data]\<rparr>"

definition actions_pledges_update :: "Pledge \<Rightarrow> store \<Rightarrow> store" where
  "actions_pledges_update data s =
     s\<lparr>pledges := map (\<lambda>pledge. if pledge_id pledge = pledge_id data then data else pledge)
                       (pledges s)\<rparr>"

definition actions_pledges_deleteBulk :: "string list \<Rightarrow> store \<Rightarrow> store" where
  "actions_pledges_deleteBulk ids s =
     s\<lparr>pledges := filter (\<lambda>pledge. pledge_id pledge \<notin> set ids) (pledges s)\<rparr>"

definition actions_pledges_updateStatusBulk :: "string list \<Rightarrow> pledge_status \<Rightarrow> store \<Rightarrow> store" where
  "actions_pledges_updateStatusBulk ids status s =
     s\<lparr>pledges := map (\<lambda>pledge. if pledge_id pledge \<in> set ids
                                 then pledge\<lparr>pledge_status := status\<rparr> else pledge)
                       (pledges s)\<rparr>"

definition actions_pledges_addTask :: "host \<Rightarrow> string \<Rightarrow> PledgeTask \<Rightarrow> store \<Rightarrow> store" where
  "actions_pledges_addTask h pledgeId taskData s =
     s\<lparr>pledges :=
         map (\<lambda>pledge. if pledge_id pledge = pledgeId
                        then pledge\<lparr>pledge_tasks :=
                                      Some (or_empty (pledge_tasks pledge)
                                            @ [taskData\<lparr>task_id := ''task-'' @ decimal (now h),
                                                         task_completed := False\<rparr>])\<rparr>
                        else pledge)
             (pledges s)\<rparr>"

definition actions_pledges_toggleTask :: "string \<Rightarrow> string \<Rightarrow> store \<Rightarrow> store" where
  "actions_pledges_toggleTask pledgeId taskId s =
     s\<lparr>pledges :=
         map (\<lambda>pledge. if pledge_id pledge = pledgeId
                        then pledge\<lparr>pledge_tasks :=
                                      Some (map (\<lambda>task. if task_id task = taskId
                                                          then task\<lparr>task_completed := \<not> task_completed task\<rparr>
                                                          else task)
                                                (or_empty (pledge_tasks pledge)))\<rparr>
                        else pledge)
             (pledges s)\<rparr>"

subsection \<open>users and roles\<close>

definition new_user :: "host \<Rightarrow> User \<Rightarrow> User" where
  "new_user h data =
     data\<lparr>user_id := ''user-'' @ decimal (now h), user_lastLogin := ''1970-01-01T00:00:00.000Z''\<rparr>"

definition actions_users_add :: "host \<Rightarrow> User \<Rightarrow> store \<Rightarrow> store" where
  "actions_users_add h data s = s\<lparr>users := users s @ [new_user h data]\<rparr>"

definition actions_users_update :: "User \<Rightarrow> store \<Rightarrow> store" where
  "actions_users_update data s =
     s\<lparr>users := map (\<lambda>user. if user_id user = user_id data then data else user) (users s)\<rparr>"

definition actions_users_updateStatus :: "string \<Rightarrow> user_status \<Rightarrow> store \<Rightarrow> store" where
  "actions_users_updateStatus id' status s =
     s\<lparr>users := map (\<lambda>user. if user_id user = id' then user\<lparr>user_status := status\<rparr> else user)
                     (users s)\<rparr>"

definition actions_roles_add :: "host \<Rightarrow> Role \<Rightarrow> store \<Rightarrow> store" where
  "actions_roles_add h data s =
     s\<lparr>roles := roles s @ [data\<lparr>role_id := ''role-'' @ decimal (now h)\<rparr>]\<rparr>"

definition actions_roles_update :: "Role \<Rightarrow> store \<Rightarrow> store" where
  "actions_roles_update data s =
     s\<lparr>roles := map (\<lambda>role. if role_id role = role_id data then data else role) (roles s)\<rparr>"

text \<open>
  \<open>roles.delete\<close> resolves to \<open>{error}\<close> (\<open>Some\<close> of the message) or to nothing.
  \<open>role?.isSystemRole\<close> is false when no role has the id and when the flag is absent.
  Both guards read the cells of the render, \<open>roles c\<close> and \<open>users c\<close>; the removal is
  an updater on the current roles.
\<close>

definition is_system_role :: "Role option \<Rightarrow> bool" where
  "is_system_role role = (case role of None \<Rightarrow> False | Some r \<Rightarrow> role_isSystemRole r = Some True)"

definition actions_roles_delete :: "store \<Rightarrow> string \<Rightarrow> store \<Rightarrow> string option \<times> store" where
  "actions_roles_delete c id' s =
     (if is_system_role (find (\<lambda>r. role_id r = id') (roles c))
      then (Some ''System roles cannot be deleted.'', s)
      else if list_ex (\<lambda>u. user_roleId u = id') (users c)
      then (Some ''Cannot delete a role that is assigned to users.'', s)
      else (None, s\<lparr>roles := filter (\<lambda>role. role_id role \<noteq> id') (roles s)\<rparr>))"

subsection \<open>settings, queue and tags\<close>

definition actions_settings_update :: "OrganizationSettings \<Rightarrow> store \<Rightarrow> store" where
  "actions_settings_update data s = s\<lparr>settings := data, tags := settings_tags data\<rparr>"

definition actions_queue_add :: "host \<Rightarrow> QueuedCommunication list \<Rightarrow> store \<Rightarrow> store" where
  "actions_queue_add h items s =
     s\<lparr>communicationQueue :=
         communicationQueue s
         @ map (\<lambda>(k, item). item\<lparr>queued_id := ''q-'' @ decimal (now h) @ ''-'' @ random h k\<rparr>)
               (enumerate 0 items)\<rparr>"

definition new_tag :: "host \<Rightarrow> Tag \<Rightarrow> Tag" where
  "new_tag h tagData = tagData\<lparr>tag_id := ''tag-'' @ decimal (now h)\<rparr>"

definition actions_tags_add :: "host \<Rightarrow> Tag \<Rightarrow> store \<Rightarrow> store" where
  "actions_tags_add h tagData s =
     s\<lparr>tags := tags s @ [new_tag h tagData],
       settings := (settings s)\<lparr>settings_tags := settings_tags (settings s) @ [new_tag h tagData]\<rparr>\<rparr>"

definition actions_tags_update :: "Tag \<Rightarrow> store \<Rightarrow> store" where
  "actions_tags_update tag s =
     s\<lparr>tags := map (\<lambda>t. if tag_id t = tag_id tag then tag else t) (tags s),
       settings := (settings s)\<lparr>settings_tags :=
                       map (\<lambda>t. if tag_id t = tag_id tag then tag else t) (settings_tags (settings s))\<rparr>\<rparr>"

definition actions_tags_delete :: "string \<Rightarrow> store \<Rightarrow> store" where
  "actions_tags_delete id' s =
     s\<lparr>tags := filter (\<lambda>t. tag_id t \<noteq> id') (tags s),
       settings := (settings s)\<lparr>settings_tags :=
                       filter (\<lambda>t. tag_id t \<noteq> id') (settings_tags (settings s))\<rparr>,
       donors := map (\<lambda>donor. donor\<lparr>donor_tagIds :=
                                  Some (filter (\<lambda>tagId. tagId \<noteq> id') (or_empty (donor_tagIds donor)))\<rparr>)
                     (donors s)\<rparr>"

subsection \<open>Calls of the mutation layer\<close>

text \<open>
  One constructor for each action of the ten entity groups (the backup actions are a layer
  of their own, below). \<open>step\<close> is the store after one call, \<open>run\<close> after a sequence of
  calls, each with the host as it is at that call. A call of \<open>roles.delete\<close> comes with
  the store of the render its \<open>actions\<close> object was built in.
\<close>

datatype call =
  Donors_add Donor
  | Donors_update Donor
  | Donors_delete string
  | Donors_deleteBulk "string list"
  | Donors_logCommunication string CommunicationLog
  | Donors_logCommunicationBulk "string list" CommunicationLog
  | Donations_add Donation
  | Donations_deleteBulk "string list"
  | Pledges_add Pledge
  | Pledges_update Pledge
  | Pledges_deleteBulk "string list"
  | Pledges_updateStatusBulk "string list" pledge_status
  | Pledges_addTask string PledgeTask
  | Pledges_toggleTask string string
  | Recurring_add NewRecurringProfile
  | Recurring_updateStatus string profile_status
  | Recurring_updateStatusBulk "string list" profile_status
  | Users_add User
  | Users_update User
  | Users_updateStatus string user_status
  | Roles_add Role
  | Roles_update Role
  | Roles_delete store string
  | Settings_update OrganizationSettings
  | Outbox_add string
  | Outbox_addBulk "string list" string
  | Outbox_updateStatus string outbox_status "string option"
  | Outbox_retry string
  | Queue_add "QueuedCommunication list"
  | Tags_add Tag
  | Tags_update Tag
  | Tags_delete string

fun step :: "host \<Rightarrow> call \<Rightarrow> store \<Rightarrow> store" where
  "step h (Donors_add data) s = actions_donors_add h data s"
| "step h (Donors_update data) s = actions_donors_update data s"
| "step h (Donors_delete i) s = actions_donors_delete i s"
| "step h (Donors_deleteBulk ids) s = actions_donors_deleteBulk ids s"
| "step h (Donors_logCommunication i logData) s = actions_donors_logCommunication h i logData s"
| "step h (Donors_logCommunicationBulk ids logData) s =
     actions_donors_logCommunicationBulk h ids logData s"
| "step h (Donations_add data) s = actions_donations_add h data s"
| "step h (Donations_deleteBulk ids) s = actions_donations_deleteBulk ids s"
| "step h (Pledges_add data) s = actions_pledges_add h data s"
| "step h (Pledges_update data) s = actions_pledges_update data s"
| "step h (Pledges_deleteBulk ids) s = actions_pledges_deleteBulk ids s"
| "step h (Pledges_updateStatusBulk ids status) s = actions_pledges_updateStatusBulk ids status s"
| "step h (Pledges_addTask i taskData) s = actions_pledges_addTask h i taskData s"
| "step h (Pledges_toggleTask i taskId) s = actions_pledges_toggleTask i taskId s"
| "step h (Recurring_add data) s =
     (case actions_recurring_add h data s of Inl e \<Rightarrow> s | Inr s' \<Rightarrow> s')"
| "step h (Recurring_updateStatus i status) s = actions_recurring_updateStatus i status s"
| "step h (Recurring_updateStatusBulk ids status) s = actions_recurring_updateStatusBulk ids status s"
| "step h (Users_add data) s = actions_users_add h data s"
| "step h (Users_update data) s = actions_users_update data s"
| "step h (Users_updateStatus i status) s = actions_users_updateStatus i status s"
| "step h (Roles_add data) s = actions_roles_add h data s"
| "step h (Roles_update data) s = actions_roles_update data s"
| "step h (Roles_delete c i) s = snd (actions_roles_delete c i s)"
| "step h (Settings_update data) s = actions_settings_update data s"
| "step h (Outbox_add i) s = actions_outbox_add h i s"
| "step h (Outbox_addBulk ids templateId) s = actions_outbox_addBulk h ids templateId s"
| "step h (Outbox_updateStatus i status err) s = actions_outbox_updateStatus h i status err s"
| "step h (Outbox_retry i) s = actions_outbox_retry i s"
| "step h (Queue_add items) s = actions_queue_add h items s"
| "step h (Tags_add tagData) s = actions_tags_add h tagData s"
| "step h (Tags_update tag) s = actions_tags_update tag s"
| "step h (Tags_delete i) s = actions_tags_delete i s"

fun run :: "(host \<times> call) list \<Rightarrow> store \<Rightarrow> store" where
  "run [] s = s"
| "run ((h, c) # cs) s = run cs (step h c s)"


section \<open>The backup layer\<close>

subsection \<open>The store as JSON values\<close>

text \<open>
  \<open>restoreStateFromData\<close> takes \<open>data: any\<close> and hands whatever it finds to the setters,
  so after a restore the state cells hold JSON values that need not have the declared types.
  \<open>raw_store\<close> is the store as the values its cells hold, the ten tracked cells as JSON
  values; backups never come from outside and keep their type. \<open>reify\<close> gives the cells of
  a store whose values have the declared types: an object lists its properties in the order
  of the interface, and an optional property that is absent or \<open>undefined\<close> is left out,
  as \<open>JSON.stringify\<close> leaves it out.
\<close>

record raw_store =
  raw_donors :: json
  raw_donations :: json
  raw_pledges :: json
  raw_recurringProfiles :: json
  raw_users :: json
  raw_roles :: json
  raw_settings :: json
  raw_outbox :: json
  raw_communicationQueue :: json
  raw_tags :: json
  raw_backups :: "Backup list"

definition optional :: "string \<Rightarrow> ('a \<Rightarrow> json) \<Rightarrow> 'a option \<Rightarrow> (string \<times> json) list" where
  "optional key f v = (case v of None \<Rightarrow> [] | Some x \<Rightarrow> [(key, f x)])"

definition array_of :: "('a \<Rightarrow> json) \<Rightarrow> 'a list \<Rightarrow> json" where
  "array_of f xs = JArray (map f xs)"

fun method_text :: "payment_method \<Rightarrow> string" where
  "method_text Online = ''Online''"
| "method_text Cash = ''Cash''"

fun purpose_text :: "purpose \<Rightarrow> string" where
  "purpose_text Sadaqa_Hadiya_Atiyat = ''Sadaqa/Hadiya/Atiyat''"
| "purpose_text Zakat = ''Zakat''"
| "purpose_text Fitrana = ''Fitrana''"
| "purpose_text Qurbani = ''Qurbani''"
| "purpose_text Sponsor_a_Child = ''Sponsor a Child''"
| "purpose_text Clean_Water = ''Clean Water''"
| "purpose_text Sasti_Roti = ''Sasti Roti''"
| "purpose_text Disaster_Management = ''Disaster Management''"
| "purpose_text Custom = ''Custom''"

fun recurring_text :: "recurring \<Rightarrow> string" where
  "recurring_text Rec_None = ''None''"
| "recurring_text Rec_Weekly = ''Weekly''"
| "recurring_text Rec_Monthly = ''Monthly''"
| "recurring_text Rec_Annually = ''Annually''"

fun frequency_text :: "frequency \<Rightarrow> string" where
  "frequency_text Monthly = ''Monthly''"
| "frequency_text Annually = ''Annually''"
| "frequency_text Weekly = ''Weekly''"

fun pledge_status_text :: "pledge_status \<Rightarrow> string" where
  "pledge_status_text Pending = ''Pending''"
| "pledge_status_text Due = ''Due''"
| "pledge_status_text Completed = ''Completed''"

fun profile_status_text :: "profile_status \<Rightarrow> string" where
  "profile_status_text Active = ''Active''"
| "profile_status_text Paused = ''Paused''"
| "profile_status_text Cancelled = ''Cancelled''"

fun user_status_text :: "user_status \<Rightarrow> string" where
  "user_status_text User_Active = ''Active''"
| "user_status_text User_Inactive = ''Inactive''"

fun outbox_status_text :: "outbox_status \<Rightarrow> string" where
  "outbox_status_text Ready_to_Send = ''Ready to Send''"
| "outbox_status_text Sent = ''Sent''"
| "outbox_status_text Failed = ''Failed''"

fun queue_status_text :: "queue_status \<Rightarrow> string" where
  "queue_status_text Queued = ''Queued''"
| "queue_status_text Queue_Sent = ''Sent''"
| "queue_status_text Queue_Failed = ''Failed''"

fun log_channel_text :: "log_channel \<Rightarrow> string" where
  "log_channel_text Log_Email = ''Email''"
| "log_channel_text Log_WhatsApp = ''WhatsApp''"
| "log_channel_text Call = ''Call''"
| "log_channel_text Meeting = ''Meeting''"
| "log_channel_text Print = ''Print''"
| "log_channel_text Download = ''Download''"

fun channel_text :: "channel \<Rightarrow> string" where
  "channel_text Email = ''Email''"
| "channel_text WhatsApp = ''WhatsApp''"

fun template_type_text :: "template_type \<Rightarrow> string" where
  "template_type_text DonationThankYou = ''DonationThankYou''"
| "template_type_text PledgeReminder = ''PledgeReminder''"
| "template_type_text GeneralUpdate = ''GeneralUpdate''"

fun permission_text :: "permission \<Rightarrow> string" where
  "permission_text donors_view = ''donors:view''"
| "permission_text donors_create = ''donors:create''"
| "permission_text donors_edit = ''donors:edit''"
| "permission_text donors_delete = ''donors:delete''"
| "permission_text receipts_view = ''receipts:view''"
| "permission_text receipts_create = ''receipts:create''"
| "permission_text receipts_delete = ''receipts:delete''"
| "permission_text reports_view = ''reports:view''"
| "permission_text settings_manage = ''settings:manage''"
| "permission_text users_manage = ''users:manage''"

definition json_of_history :: "DonationHistory \<Rightarrow> json" where
  "json_of_history e =
     JObject [(''date'', JString (history_date e)), (''amount'', JNumber (history_amount e)),
              (''receiptId'', JString (history_receiptId e))]"

definition json_of_log :: "CommunicationLog \<Rightarrow> json" where
  "json_of_log l =
     JObject [(''id'', JString (log_id l)), (''date'', JString (log_date l)),
              (''channel'', JString (log_channel_text (log_channel l))),
              (''subjectOrTemplate'', JString (log_subjectOrTemplate l)),
              (''notes'', JString (log_notes l)), (''userId'', JString (log_userId l))]"

definition json_of_contact :: "Contact \<Rightarrow> json" where
  "json_of_contact c =
     JObject [(''id'', JString (contact_id c)), (''name'', JString (contact_name c)),
              (''relationship'', JString (contact_relationship c)),
              (''email'', JString (contact_email c)), (''phone'', JString (contact_phone c)),
              (''isPrimary'', JBool (contact_isPrimary c))]"

definition json_of_tag :: "Tag \<Rightarrow> json" where
  "json_of_tag t =
     JObject [(''id'', JString (tag_id t)), (''name'', JString (tag_name t)),
              (''color'', JString (tag_color t))]"

definition json_of_donor :: "Donor \<Rightarrow> json" where
  "json_of_donor d =
     JObject ([(''id'', JString (donor_id d)), (''name'', JString (donor_name d)),
               (''email'', JString (donor_email d)), (''phone'', JString (donor_phone d)),
               (''address'', JString (donor_address d)), (''joinDate'', JString (donor_joinDate d)),
               (''donationHistory'', array_of json_of_history (donor_donationHistory d))]
              @ optional ''tagIds'' (array_of JString) (donor_tagIds d)
              @ optional ''notes'' JString (donor_notes d)
              @ optional ''communicationLogs'' (array_of json_of_log) (donor_communicationLogs d)
              @ optional ''contacts'' (array_of json_of_contact) (donor_contacts d))"

definition json_of_donation :: "Donation \<Rightarrow> json" where
  "json_of_donation d =
     JObject ([(''id'', JString (donation_id d)), (''donorId'', JString (donation_donorId d)),
               (''amount'', JNumber (donation_amount d)), (''date'', JString (donation_date d)),
               (''method'', JString (method_text (donation_method d))),
               (''purpose'', JString (purpose_text (donation_purpose d)))]
              @ optional ''customPurpose'' JString (donation_customPurpose d)
              @ [(''recurring'', JString (recurring_text (donation_recurring d)))])"

definition json_of_task :: "PledgeTask \<Rightarrow> json" where
  "json_of_task t =
     JObject [(''id'', JString (task_id t)), (''description'', JString (task_description t)),
              (''completed'', JBool (task_completed t))]"

definition json_of_pledge :: "Pledge \<Rightarrow> json" where
  "json_of_pledge p =
     JObject ([(''id'', JString (pledge_id p)), (''donorId'', JString (pledge_donorId p)),
               (''amount'', JNumber (pledge_amount p)), (''dueDate'', JString (pledge_dueDate p)),
               (''status'', JString (pledge_status_text (pledge_status p)))]
              @ optional ''tasks'' (array_of json_of_task) (pledge_tasks p))"

definition json_of_profile :: "RecurringProfile \<Rightarrow> json" where
  "json_of_profile p =
     JObject ([(''id'', JString (profile_id p)), (''donorId'', JString (profile_donorId p)),
               (''amount'', JNumber (profile_amount p)),
               (''frequency'', JString (frequency_text (profile_frequency p))),
               (''startDate'', JString (profile_startDate p)),
               (''nextDueDate'', JString (profile_nextDueDate p)),
               (''status'', JString (profile_status_text (profile_status p))),
               (''purpose'', JString (purpose_text (profile_purpose p)))]
              @ optional ''customPurpose'' JString (profile_customPurpose p)
              @ [(''method'', JString (method_text (profile_method p)))])"

definition json_of_role :: "Role \<Rightarrow> json" where
  "json_of_role r =
     JObject ([(''id'', JString (role_id r)), (''name'', JString (role_name r)),
               (''permissions'', array_of (\<lambda>p. JString (permission_text p)) (role_permissions r))]
              @ optional ''isSystemRole'' JBool (role_isSystemRole r))"

definition json_of_user :: "User \<Rightarrow> json" where
  "json_of_user u =
     JObject ([(''id'', JString (user_id u)), (''name'', JString (user_name u)),
               (''email'', JString (user_email u)), (''roleId'', JString (user_roleId u)),
               (''status'', JString (user_status_text (user_status u)))]
              @ optional ''avatar'' JString (user_avatar u)
              @ [(''lastLogin'', JString (user_lastLogin u))])"

definition json_of_template :: "CommunicationTemplate \<Rightarrow> json" where
  "json_of_template t =
     JObject ([(''id'', JString (template_id t)), (''name'', JString (template_name t)),
               (''type'', JString (template_type_text (template_type t))),
               (''channel'', JString (channel_text (template_channel t)))]
              @ optional ''subject'' JString (template_subject t)
              @ [(''body'', JString (template_body t))])"

definition json_of_settings :: "OrganizationSettings \<Rightarrow> json" where
  "json_of_settings st =
     JObject [(''name'', JString (settings_name st)), (''logo'', JString (settings_logo st)),
              (''address'', JString (settings_address st)),
              (''website'', JString (settings_website st)),
              (''phone'', JString (settings_phone st)), (''email'', JString (settings_email st)),
              (''whatsappNumber'', JString (settings_whatsappNumber st)),
              (''receiptThankYouMessage'', JString (settings_receiptThankYouMessage st)),
              (''communicationTemplates'',
                 array_of json_of_template (settings_communicationTemplates st)),
              (''tags'', array_of json_of_tag (settings_tags st))]"

fun json_of_info :: "outbox_info \<Rightarrow> (string \<times> json) list" where
  "json_of_info (Receipt donationId) =
     [(''type'', JString ''receipt''), (''donationId'', JString donationId)]"
| "json_of_info (Template donorId templateId) =
     [(''type'', JString ''template''), (''donorId'', JString donorId),
      (''templateId'', JString templateId)]"

definition json_of_item :: "OutboxItem \<Rightarrow> json" where
  "json_of_item i =
     JObject ([(''id'', JString (outbox_id i)),
               (''status'', JString (outbox_status_text (outbox_status i))),
               (''addedAt'', JString (outbox_addedAt i))]
              @ optional ''sentAt'' JString (outbox_sentAt i)
              @ optional ''error'' JString (outbox_error i)
              @ json_of_info (outbox_info i))"

definition json_of_queued :: "QueuedCommunication \<Rightarrow> json" where
  "json_of_queued q =
     JObject ([(''id'', JString (queued_id q)), (''donorId'', JString (queued_donorId q)),
               (''templateId'', JString (queued_templateId q)),
               (''channel'', JString (channel_text (queued_channel q))),
               (''status'', JString (queue_status_text (queued_status q))),
               (''queuedAt'', JString (queued_queuedAt q))]
              @ optional ''sentAt'' JString (queued_sentAt q)
              @ optional ''error'' JString (queued_error q))"

definition reify :: "store \<Rightarrow> raw_store" where
  "reify s =
     \<lparr>raw_donors = array_of json_of_donor (donors s),
      raw_donations = array_of json_of_donation (donations s),
      raw_pledges = array_of json_of_pledge (pledges s),
      raw_recurringProfiles = array_of json_of_profile (recurringProfiles s),
      raw_users = array_of json_of_user (users s),
      raw_roles = array_of json_of_role (roles s),
      raw_settings = json_of_settings (settings s),
      raw_outbox = array_of json_of_item (outbox s),
      raw_communicationQueue = array_of json_of_queued (communicationQueue s),
      raw_tags = array_of json_of_tag (tags s),
      raw_backups = backups s\<rparr>"

subsection \<open>mockData.ts: the settings a restore falls back to\<close>

definition mockTags :: "Tag list" where
  "mockTags =
     [\<lparr>tag_id = ''tag-1'', tag_name = ''Volunteer'',
       tag_color = ''bg-blue-100 text-blue-800 dark:bg-blue-900 dark:text-blue-200''\<rparr>,
      \<lparr>tag_id = ''tag-2'', tag_name = ''Gala 2023'',
       tag_color = ''bg-purple-100 text-purple-800 dark:bg-purple-900 dark:text-purple-200''\<rparr>,
      \<lparr>tag_id = ''tag-3'', tag_name = ''Corporate'',
       tag_color = ''bg-yellow-100 text-yellow-800 dark:bg-yellow-900 dark:text-yellow-200''\<rparr>,
      \<lparr>tag_id = ''tag-4'', tag_name = ''Major Donor'',
       tag_color = ''bg-red-100 text-red-800 dark:bg-red-900 dark:text-red-200''\<rparr>]"

definition line_feed :: char where
  "line_feed = CHR 0x0A"

definition mockSettings :: OrganizationSettings where
  "mockSettings =
     \<lparr>settings_name = ''Alkahaf Donor System'',
      settings_logo = [],
      settings_address = ''123 Charity Lane, Kindness City, 12345'',
      settings_website = ''www.alkahaf.org'',
      settings_phone = ''1-800-GIVE-NOW'',
      settings_email = ''info@alkahaf.org'',
      settings_whatsappNumber = ''12223334444'',
      settings_receiptThankYouMessage = ''Thank you for your generous contribution!'',
      settings_communicationTemplates =
        [\<lparr>template_id = ''template-1'', template_name = ''Standard Thank You (Email)'',
          template_type = DonationThankYou, template_channel = Email,
          template_subject = Some ''Thank you for your donation!'',
          template_body = ''Dear {{donorName}},'' @ [line_feed, line_feed]
            @ ''Thank you for your generous donation to {{orgName}}.''\<rparr>,
         \<lparr>template_id = ''template-2'', template_name = ''Standard Thank You (WhatsApp)'',
          template_type = DonationThankYou, template_channel = WhatsApp,
          template_subject = None,
          template_body =
            ''Dear {{donorName}}, thank you for your generous donation to {{orgName}}!''\<rparr>],
      settings_tags = mockTags\<rparr>"


subsection \<open>restoreStateFromData\<close>

text \<open>
  Reading a property: of \<open>null\<close> it throws a TypeError, of an object it gives the property
  or \<open>undefined\<close> (\<open>None\<close>), and of a boolean, a number, a string or an array it gives
  \<open>undefined\<close> for each of the ten names read here, none of which those values inherit.
\<close>

definition property :: "json \<Rightarrow> string \<Rightarrow> json option" where
  "property data key = (case data of JObject kvs \<Rightarrow> map_of kvs key | _ \<Rightarrow> None)"

fun truthy :: "json \<Rightarrow> bool" where
  "truthy JNull = False"
| "truthy (JBool b) = b"
| "truthy (JNumber n) = (n \<noteq> Finite 0 \<and> n \<noteq> NaN)"
| "truthy (JString text) = (text \<noteq> [])"
| "truthy (JArray xs) = True"
| "truthy (JObject kvs) = True"

definition truthy_property :: "json \<Rightarrow> string \<Rightarrow> bool" where
  "truthy_property data key = (case property data key of None \<Rightarrow> False | Some v \<Rightarrow> truthy v)"

text \<open>\<open>data.key || fallback\<close>\<close>

definition property_or :: "json \<Rightarrow> string \<Rightarrow> json \<Rightarrow> json" where
  "property_or data key fallback =
     (case property data key of
        None \<Rightarrow> fallback
      | Some v \<Rightarrow> if truthy v then v else fallback)"

text \<open>
  What the built-in \<open>JSON.parse\<close> makes of the text the built-in \<open>JSON.stringify\<close> writes
  for a value: the value with \<open>null\<close> in the place of every number that is not finite.
\<close>

primrec jsonify :: "json \<Rightarrow> json" where
  "jsonify JNull = JNull"
| "jsonify (JBool b) = JBool b"
| "jsonify (JNumber n) = (case n of Finite q \<Rightarrow> JNumber n | _ \<Rightarrow> JNull)"
| "jsonify (JString text) = JString text"
| "jsonify (JArray xs) = JArray (map jsonify xs)"
| "jsonify (JObject kvs) = JObject (map (map_prod id jsonify) kvs)"

definition finite_numbers :: "json \<Rightarrow> bool" where
  "finite_numbers v \<longleftrightarrow> jsonify v = v"

definition jsonify_store :: "raw_store \<Rightarrow> raw_store" where
  "jsonify_store r =
     r\<lparr>raw_donors := jsonify (raw_donors r),
       raw_donations := jsonify (raw_donations r),
       raw_pledges := jsonify (raw_pledges r),
       raw_recurringProfiles := jsonify (raw_recurringProfiles r),
       raw_users := jsonify (raw_users r),
       raw_roles := jsonify (raw_roles r),
       raw_settings := jsonify (raw_settings r),
       raw_outbox := jsonify (raw_outbox r),
       raw_communicationQueue := jsonify (raw_communicationQueue r),
       raw_tags := jsonify (raw_tags r)\<rparr>"

definition restoreStateFromData :: "json \<Rightarrow> raw_store \<Rightarrow> error + raw_store" where
  "restoreStateFromData data r =
     (if data = JNull then Inl TypeError
      else Inr (r\<lparr>raw_donors := property_or data ''donors'' (JArray []),
                  raw_donations := property_or data ''donations'' (JArray []),
                  raw_pledges := property_or data ''pledges'' (JArray []),
                  raw_recurringProfiles := property_or data ''recurringProfiles'' (JArray []),
                  raw_users := property_or data ''users'' (JArray []),
                  raw_roles := property_or data ''roles'' (JArray []),
                  raw_settings := property_or data ''settings'' (json_of_settings mockSettings),
                  raw_outbox := property_or data ''outbox'' (JArray []),
                  raw_communicationQueue := property_or data ''communicationQueue'' (JArray []),
                  raw_tags := property_or data ''tags'' (JArray [])\<rparr>))"

subsection \<open>backups\<close>

definition stateToBackup :: "raw_store \<Rightarrow> json" where
  "stateToBackup r =
     JObject [(''donors'', raw_donors r), (''donations'', raw_donations r),
              (''pledges'', raw_pledges r), (''recurringProfiles'', raw_recurringProfiles r),
              (''users'', raw_users r), (''roles'', raw_roles r), (''settings'', raw_settings r),
              (''outbox'', raw_outbox r), (''communicationQueue'', raw_communicationQueue r),
              (''tags'', raw_tags r)]"

text \<open>The size of a Blob of one string is the number of bytes of the text.\<close>

definition newBackup :: "host \<Rightarrow> raw_store \<Rightarrow> Backup" where
  "newBackup h r =
     \<lparr>backup_id = ''backup-'' @ decimal (now h),
      backup_date = toISOString (int (now h)),
      backup_size = length (JSON_stringify h (stateToBackup r)),
      backup_data = JSON_stringify h (stateToBackup r)\<rparr>"

text \<open>
  \<open>create\<close> snapshots the ten cells of its render \<open>c\<close> and puts the backup in front of the
  current backups with an updater.
\<close>

definition actions_backups_create :: "host \<Rightarrow> raw_store \<Rightarrow> raw_store \<Rightarrow> Backup \<times> raw_store" where
  "actions_backups_create h c r = (newBackup h c, r\<lparr>raw_backups := newBackup h c # raw_backups r\<rparr>)"

text \<open>
  \<open>restore\<close> looks the id up in the backups of its render \<open>c\<close>. It throws: \<open>Inl\<close> is the
  exception, and the store is then as it was, since no setter has run.
\<close>

definition actions_backups_restore ::
  "host \<Rightarrow> raw_store \<Rightarrow> string \<Rightarrow> raw_store \<Rightarrow> error + raw_store" where
  "actions_backups_restore h c backupId r =
     (case find (\<lambda>b. backup_id b = backupId) (raw_backups c) of
        None \<Rightarrow> Inl BackupNotFound
      | Some backup \<Rightarrow>
          (case JSON_parse h (backup_data backup) of
             None \<Rightarrow> Inl SyntaxError
           | Some parsedData \<Rightarrow> restoreStateFromData parsedData r))"

record restore_result =
  success :: bool
  error_message :: "string option"

text \<open>
  The whole body of \<open>restoreFromFile\<close> is inside \<open>try\<close>: the SyntaxError of \<open>JSON.parse\<close>
  and the TypeError of reading \<open>parsedData.donors\<close> of \<open>null\<close> both end in the \<open>catch\<close>.
  \<open>!parsedData.donors || !parsedData.donations\<close> reads the second property only when
  the first is truthy.
\<close>

definition actions_backups_restoreFromFile ::
  "host \<Rightarrow> string \<Rightarrow> raw_store \<Rightarrow> restore_result \<times> raw_store" where
  "actions_backups_restoreFromFile h jsonData r =
     (case JSON_parse h jsonData of
        None \<Rightarrow> (\<lparr>success = False, error_message = Some ''Failed to parse backup file.''\<rparr>, r)
      | Some parsedData \<Rightarrow>
          if parsedData = JNull
          then (\<lparr>success = False, error_message = Some ''Failed to parse backup file.''\<rparr>, r)
          else if \<not> truthy_property parsedData ''donors''
          then (\<lparr>success = False, error_message = Some ''Invalid backup file format.''\<rparr>, r)
          else if \<not> truthy_property parsedData ''donations''
          then (\<lparr>success = False, error_message = Some ''Invalid backup file format.''\<rparr>, r)
          else (case restoreStateFromData parsedData r of
                  Inl e \<Rightarrow> (\<lparr>success = False, error_message = Some ''Failed to parse backup file.''\<rparr>, r)
                | Inr r' \<Rightarrow> (\<lparr>success = True, error_message = None\<rparr>, r')))"

definition actions_backups_delete :: "string \<Rightarrow> raw_store \<Rightarrow> raw_store" where
  "actions_backups_delete backupId r =
     r\<lparr>raw_backups := filter (\<lambda>backup. backup_id backup \<noteq> backupId) (raw_backups r)\<rparr>"


section \<open>Concrete hosts and stores\<close>

text \<open>
  A host whose \<open>JSON\<close> functions are a finite table of texts and the values they denote,
  for evaluating the actions at concrete inputs: \<open>JSON.parse\<close> looks the text up, and
  \<open>JSON.stringify\<close> gives the text of the value with \<open>null\<close> for the numbers that are not
  finite. Its engine reads a date of the form \<open>YYYY-MM-DD\<close> only.
\<close>

definition table_host :: "nat \<Rightarrow> int \<Rightarrow> (string \<times> json) list \<Rightarrow> host" where
  "table_host clock tz table =
     \<lparr>now = clock, timezone = tz, random = (\<lambda>k. ''0.'' @ decimal (Suc k)),
      JSON_parse = map_of table,
      JSON_stringify = (\<lambda>v. case find (\<lambda>entry. snd entry = jsonify v) table of
                                None \<Rightarrow> [] | Some entry \<Rightarrow> fst entry),
      Date_parse_other = (\<lambda>text. None)\<rparr>"

definition donor_D1 :: Donor where
  "donor_D1 =
     \<lparr>donor_id = ''D1'', donor_name = ''Alice Johnson'', donor_email = ''alice.j@example.com'',
      donor_phone = ''123-456-7890'', donor_address = ''123 Maple St, Springfield'',
      donor_joinDate = ''2023-01-15'', donor_donationHistory = [],
      donor_tagIds = Some [''tag-1'', ''tag-2''], donor_notes = None,
      donor_communicationLogs = None, donor_contacts = None\<rparr>"

definition donor_D2 :: Donor where
  "donor_D2 =
     \<lparr>donor_id = ''D2'', donor_name = ''Bob Williams'', donor_email = ''bob.w@example.com'',
      donor_phone = ''234-567-8901'', donor_address = ''456 Oak Ave, Metropolis'',
      donor_joinDate = ''2023-02-20'', donor_donationHistory = [],
      donor_tagIds = None, donor_notes = None,
      donor_communicationLogs = None, donor_contacts = None\<rparr>"

definition donation_R1 :: Donation where
  "donation_R1 =
     \<lparr>donation_id = ''R1'', donation_donorId = ''D1'', donation_amount = Finite 100,
      donation_date = ''2024-03-01'', donation_method = Online, donation_purpose = Zakat,
      donation_customPurpose = None, donation_recurring = Rec_Monthly\<rparr>"

definition example_roles :: "Role list" where
  "example_roles =
     [\<lparr>role_id = ''role-1'', role_name = ''Administrator'',
       role_permissions = [donors_view, donors_create, donors_edit, donors_delete, receipts_view,
                           receipts_create, receipts_delete, reports_view, settings_manage,
                           users_manage],
       role_isSystemRole = Some True\<rparr>,
      \<lparr>role_id = ''role-2'', role_name = ''Staff'',
       role_permissions = [donors_view, donors_create, donors_edit, receipts_view, receipts_create],
       role_isSystemRole = None\<rparr>,
      \<lparr>role_id = ''role-3'', role_name = ''Viewer'',
       role_permissions = [donors_view, receipts_view, reports_view],
       role_isSystemRole = None\<rparr>]"

definition example_users :: "User list" where
  "example_users =
     [\<lparr>user_id = ''user-1'', user_name = ''Admin User'', user_email = ''admin@alkahaf.org'',
       user_roleId = ''role-1'', user_status = User_Active,
       user_avatar = Some ''https://i.pravatar.cc/150?u=admin'',
       user_lastLogin = ''2024-03-01T08:00:00.000Z''\<rparr>,
      \<lparr>user_id = ''user-2'', user_name = ''John Doe'', user_email = ''john.doe@example.com'',
       user_roleId = ''role-2'', user_status = User_Active,
       user_avatar = Some ''https://i.pravatar.cc/150?u=john'',
       user_lastLogin = ''2024-02-29T10:00:00.000Z''\<rparr>]"

definition example_store :: store where
  "example_store =
     \<lparr>donors = [donor_D1, donor_D2], donations = [], pledges = [], recurringProfiles = [],
      users = example_users, roles = example_roles, settings = mockSettings, outbox = [],
      communicationQueue = [], tags = mockTags, backups = []\<rparr>"

text \<open>A browser at 2024-03-01T13:33:20Z five hours west of UTC, and one on UTC.\<close>

definition host_west :: host where
  "host_west = table_host 1709300000000 (- 300) []"

definition host_utc :: host where
  "host_utc = table_host 1709300000000 0 []"

text \<open>
  Three texts a backup file may hold, and the text of the snapshot of the example store.
  The store never looks into a text, it only hands it to \<open>JSON.parse\<close>; the snapshot's
  text is abbreviated, the other three are written out.
\<close>

definition dq :: char where
  "dq = CHR 0x22"

definition quoted :: "string \<Rightarrow> string" where
  "quoted name = dq # name @ [dq]"

definition file_null_donations :: string where
  "file_null_donations = ''{'' @ quoted ''donors'' @ '':[],'' @ quoted ''donations'' @ '':null}''"

definition file_minimal :: string where
  "file_minimal = ''{'' @ quoted ''donors'' @ '':[],'' @ quoted ''donations'' @ '':[]}''"

definition snapshot_text :: string where
  "snapshot_text = ''{'' @ quoted ''donors'' @ '': [ ... ], ... }''"

definition host_files :: host where
  "host_files =
     table_host 1709300000000 0
       [(snapshot_text, jsonify (stateToBackup (reify example_store))),
        (''{}'', JObject []),
        (file_null_donations, JObject [(''donors'', JArray []), (''donations'', JNull)]),
        (file_minimal, JObject [(''donors'', JArray []), (''donations'', JArray [])])]"

definition backup_empty :: Backup where
  "backup_empty =
     \<lparr>backup_id = ''backup-1709200000000'', backup_date = ''2024-02-29T09:46:40.000Z'',
      backup_size = 2, backup_data = ''{}''\<rparr>"

definition raw_example :: raw_store where
  "raw_example = (reify example_store)\<lparr>raw_backups := [backup_empty]\<rparr>"

definition defaults :: raw_store where
  "defaults =
     \<lparr>raw_donors = JArray [], raw_donations = JArray [], raw_pledges = JArray [],
      raw_recurringProfiles = JArray [], raw_users = JArray [], raw_roles = JArray [],
      raw_settings = json_of_settings mockSettings, raw_outbox = JArray [],
      raw_communicationQueue = JArray [], raw_tags = JArray [], raw_backups = []\<rparr>"

text \<open>
  John Doe made a viewer, as \<open>users.update\<close> takes him; a pledge whose amount is the
  number \<open>NaN\<close>, as \<open>pledges.add\<close> takes it; the store after that \<open>pledges.add\<close>, and
  a host that knows the text of its snapshot.
\<close>

definition john_as_viewer :: User where
  "john_as_viewer =
     \<lparr>user_id = ''user-2'', user_name = ''John Doe'', user_email = ''john.doe@example.com'',
      user_roleId = ''role-3'', user_status = User_Active,
      user_avatar = Some ''https://i.pravatar.cc/150?u=john'',
      user_lastLogin = ''2024-02-29T10:00:00.000Z''\<rparr>"

definition pledge_nan :: Pledge where
  "pledge_nan =
     \<lparr>pledge_id = [], pledge_donorId = ''D1'', pledge_amount = NaN,
      pledge_dueDate = ''2024-04-01'', pledge_status = Pending, pledge_tasks = None\<rparr>"

definition store_nan :: store where
  "store_nan = actions_pledges_add host_utc pledge_nan example_store"

definition snapshot_nan_text :: string where
  "snapshot_nan_text = ''{'' @ quoted ''donors'' @ '': [ ... ], ... '' @ quoted ''amount'' @ '': null ... }''"

definition host_nan :: host where
  "host_nan = table_host 1709300000000 0 [(snapshot_nan_text, jsonify (stateToBackup (reify store_nan)))]"

section \<open>Notions of the specification\<close>

text \<open>
  The calls of the outbox state machine, the status a call asks for an item of a given id,
  and the status an item is left in by a sequence of calls when every call is obeyed.
\<close>

fun is_outbox_call :: "call \<Rightarrow> bool" where
  "is_outbox_call (Outbox_updateStatus i status err) = True"
| "is_outbox_call (Outbox_retry i) = True"
| "is_outbox_call c = False"

fun requested_status :: "string \<Rightarrow> call \<Rightarrow> outbox_status option" where
  "requested_status i (Outbox_updateStatus j status err) = (if j = i then Some status else None)"
| "requested_status i (Outbox_retry j) = (if j = i then Some Ready_to_Send else None)"
| "requested_status i c = None"

fun final_status :: "call list \<Rightarrow> string \<Rightarrow> outbox_status \<Rightarrow> outbox_status" where
  "final_status [] i status = status"
| "final_status (c # cs) i status =
     final_status cs i (case requested_status i c of None \<Rightarrow> status | Some status' \<Rightarrow> status')"

text \<open>The calls that write the tag list or the settings.\<close>

fun writes_tags :: "call \<Rightarrow> bool" where
  "writes_tags (Tags_add tagData) = True"
| "writes_tags (Tags_update tag) = True"
| "writes_tags (Tags_delete i) = True"
| "writes_tags (Settings_update data) = True"
| "writes_tags c = False"


section \<open>Evaluation\<close>

lemmas date_eval =
  digit_def decimal.simps pad2_def pad3_def pad4_def pad6_def msPerDay_def msPerMinute_def
  Day_def TimeWithinDay_def days_from_march_def days_from_civil_def civil_of_mp_def
  civil_of_doy_def civil_of_yoe_def civil_of_doe_def civil_from_days_def YearFromTime_def
  MonthFromTime_def DateFromTime_def MakeDay_def MakeDate_def LocalTime_def UTC_def
  digit_val_def valid_civil_def date_of_fields_def parse_date_only_def Date_parse_def getDate_def
  getMonth_def getFullYear_def setDate_def setMonth_def setFullYear_def iso_year_def iso_date_def
  iso_time_def toISOString_def before_T_def

lemmas example_defs = table_host_def donor_D1_def donor_D2_def donation_R1_def example_roles_def
  example_users_def example_store_def host_west_def host_utc_def

lemmas action_defs =
  actions_donors_add_def actions_donors_update_def actions_donors_delete_def
  actions_donors_deleteBulk_def actions_donors_logCommunication_def
  actions_donors_logCommunicationBulk_def actions_donations_add_def
  actions_donations_deleteBulk_def actions_pledges_add_def actions_pledges_update_def
  actions_pledges_deleteBulk_def actions_pledges_updateStatusBulk_def
  actions_pledges_addTask_def actions_pledges_toggleTask_def actions_recurring_add_def
  actions_recurring_updateStatus_def actions_recurring_updateStatusBulk_def
  actions_users_add_def actions_users_update_def actions_users_updateStatus_def
  actions_roles_add_def actions_roles_update_def actions_roles_delete_def
  actions_settings_update_def actions_outbox_add_def actions_outbox_addBulk_def
  actions_outbox_updateStatus_def actions_outbox_retry_def actions_queue_add_def
  actions_tags_add_def actions_tags_update_def actions_tags_delete_def
  add_recurring_of_def add_history_def

lemmas add_defs = frequency_of_def profile_of_donation_def new_profile_def new_receipt_item_def
  history_entry_def

lemma next_due_west:
  "timezone h = - 300 \<Longrightarrow> calculateNextDueDate h ''2024-03-01'' Monthly = Inr ''2024-03-30''"
  by (simp add: calculateNextDueDate_def add_week_def add_month_def add_year_def date_eval)

lemma next_due_utc:
  "timezone h = 0 \<Longrightarrow> calculateNextDueDate h ''2024-03-01'' Monthly = Inr ''2024-04-01''"
  by (simp add: calculateNextDueDate_def add_week_def add_month_def add_year_def date_eval)

section \<open>Deleting donors\<close>

text \<open>What \<open>donors.delete\<close> and \<open>donors.deleteBulk\<close> do remove.\<close>

lemma donors_delete_removes:
  "id' \<notin> donor_id ` set (donors (actions_donors_delete id' s))
   \<and> id' \<notin> donation_donorId ` set (donations (actions_donors_delete id' s))
   \<and> id' \<notin> pledge_donorId ` set (pledges (actions_donors_delete id' s))"
  by (auto simp add: actions_donors_delete_def)

lemma donors_deleteBulk_removes:
  "set ids \<inter> donor_id ` set (donors (actions_donors_deleteBulk ids s)) = {}
   \<and> set ids \<inter> donation_donorId ` set (donations (actions_donors_deleteBulk ids s)) = {}
   \<and> set ids \<inter> pledge_donorId ` set (pledges (actions_donors_deleteBulk ids s)) = {}"
  by (auto simp add: actions_donors_deleteBulk_def)

text \<open>
  Claim C1: \<open>donors.delete\<close> and \<open>donors.deleteBulk\<close> remove the donors, their donations
  and their pledges, and afterwards no collection holds a reference to a deleted entity.

  The code at a store where the claim fails: donor D1 gives the monthly donation R1, which
  puts a receipt for R1 into the outbox and creates a recurring profile of D1; then D1 is
  deleted. The donor and the donation are gone, and the outbox still refers to donation R1
  and the recurring profile to donor D1. (\<open>donations.deleteBulk\<close> removes the receipts of
  the donations it deletes; \<open>donors.delete\<close> deletes donations without doing so.)
\<close>

theorem donors_delete_leaves_references:
  "map donor_id (donors (actions_donors_delete ''D1''
      (actions_donations_add host_utc donation_R1 example_store))) = [''D2'']
   \<and> donations (actions_donors_delete ''D1''
      (actions_donations_add host_utc donation_R1 example_store)) = []
   \<and> map outbox_info (outbox (actions_donors_delete ''D1''
      (actions_donations_add host_utc donation_R1 example_store))) = [Receipt ''R1'']
   \<and> map profile_donorId (recurringProfiles (actions_donors_delete ''D1''
      (actions_donations_add host_utc donation_R1 example_store))) = [''D1'']"
  by (simp add: action_defs example_defs add_defs next_due_utc)

section \<open>Adding a donation\<close>

text \<open>
  The four writes of \<open>donations.add\<close>: the donation is appended, every donor of its
  \<open>donorId\<close> gets one history entry, one receipt item is put in front of the outbox, and
  one profile is appended when the donation recurs and its date is a valid date.
\<close>

lemma donations_add_writes:
  "donations (actions_donations_add h data s) = donations s @ [data]
   \<and> donors (actions_donations_add h data s)
       = map (\<lambda>donor. if donor_id donor = donation_donorId data
                       then donor\<lparr>donor_donationHistory :=
                                    donor_donationHistory donor @ [history_entry data]\<rparr>
                       else donor) (donors s)
   \<and> outbox (actions_donations_add h data s)
       = new_receipt_item h (donation_id data) # outbox s
   \<and> recurringProfiles (actions_donations_add h data s)
       = recurringProfiles s
         @ (case frequency_of (donation_recurring data) of
              None \<Rightarrow> []
            | Some frequency \<Rightarrow>
                (case calculateNextDueDate h (donation_date data) frequency of
                   Inl e \<Rightarrow> []
                 | Inr nextDueDate \<Rightarrow>
                     [new_profile h (profile_of_donation data frequency) nextDueDate]))"
  by (simp add: action_defs profile_of_donation_def split: option.splits sum.splits)

text \<open>
  Claim C2: for a donation of an existing donor, \<open>donations.add\<close> appends the donation,
  appends one entry to the donor's history, enqueues one receipt item that is ready to send
  and, exactly when the donation recurs, creates one recurring profile whose
  \<open>nextDueDate\<close> is the start date plus one period.

  The code at an input where the claim fails. The monthly donation R1 is dated 2024-03-01.
  In a browser five hours west of UTC the profile is due on 2024-03-30, not on 2024-04-01:
  the date is read as midnight UTC, which is 19:00 of 29 February local time, moved by
  \<open>setMonth\<close> to 19:00 of 29 March local time, and printed in UTC. On UTC the same call
  gives 2024-04-01.
\<close>

theorem donations_add_next_due_date_west_of_utc:
  "recurringProfiles (actions_donations_add host_west donation_R1 example_store)
     = [\<lparr>profile_id = ''rec-1709300000000'', profile_donorId = ''D1'',
         profile_amount = Finite 100,
         profile_frequency = Monthly, profile_startDate = ''2024-03-01'',
         profile_nextDueDate = ''2024-03-30'', profile_status = Active,
         profile_purpose = Zakat, profile_customPurpose = None, profile_method = Online\<rparr>]
   \<and> map profile_nextDueDate
         (recurringProfiles (actions_donations_add host_utc donation_R1 example_store))
       = [''2024-04-01'']"
  by (simp add: action_defs example_defs add_defs next_due_west next_due_utc date_eval)

section \<open>Deleting a role\<close>

text \<open>
  What \<open>roles.delete\<close> does, in terms of the render \<open>c\<close> it reads: an error and the store
  as it was when the first role of the id in \<open>roles c\<close> is a system role or a user of
  \<open>users c\<close> has the role; otherwise the roles of the id are filtered out of the current
  roles and nothing else changes. With \<open>c = s\<close> this is the first call on an \<open>actions\<close>
  object.
\<close>

lemma roles_delete_reads_render:
  "((\<exists>r. find (\<lambda>r. role_id r = i) (roles c) = Some r \<and> role_isSystemRole r = Some True)
      \<or> (\<exists>u \<in> set (users c). user_roleId u = i)
     \<longrightarrow> (\<exists>msg. actions_roles_delete c i s = (Some msg, s)))
   \<and> (\<not> ((\<exists>r. find (\<lambda>r. role_id r = i) (roles c) = Some r \<and> role_isSystemRole r = Some True)
          \<or> (\<exists>u \<in> set (users c). user_roleId u = i))
     \<longrightarrow> fst (actions_roles_delete c i s) = None
         \<and> roles (snd (actions_roles_delete c i s)) = filter (\<lambda>role. role_id role \<noteq> i) (roles s)
         \<and> (snd (actions_roles_delete c i s))\<lparr>roles := roles s\<rparr> = s)"
proof -
  have sys: "is_system_role (find (\<lambda>r. role_id r = i) (roles c))
      \<longleftrightarrow> (\<exists>r. find (\<lambda>r. role_id r = i) (roles c) = Some r \<and> role_isSystemRole r = Some True)"
    by (cases "find (\<lambda>r. role_id r = i) (roles c)") (simp_all add: is_system_role_def)
  have assigned: "list_ex (\<lambda>u. user_roleId u = i) (users c) \<longleftrightarrow> (\<exists>u \<in> set (users c). user_roleId u = i)"
    by (simp add: list_ex_iff)
  show ?thesis
    unfolding actions_roles_delete_def sys assigned by auto
qed

text \<open>
  Claim C4: \<open>roles.delete(id)\<close> returns an error result and leaves the whole store as it
  was when the role of that id is a system role or some user has that \<open>roleId\<close>; otherwise
  it removes the role from the roles.

  The code at an input where the claim fails. On one \<open>actions\<close> object, built when no
  user is a viewer, \<open>users.update\<close> makes John Doe a viewer and \<open>roles.delete\<close> then deletes
  the role of the viewers, \<open>role-3\<close>, without an error: it reads the users of its render,
  where nobody had the role. The same call on the \<open>actions\<close> object of the next render is
  refused.
\<close>

theorem roles_delete_misses_user_assigned_since_render:
  "map user_roleId (users (actions_users_update john_as_viewer example_store))
     = [''role-1'', ''role-3'']
   \<and> fst (actions_roles_delete example_store ''role-3''
            (actions_users_update john_as_viewer example_store)) = None
   \<and> map role_id (roles (snd (actions_roles_delete example_store ''role-3''
            (actions_users_update john_as_viewer example_store)))) = [''role-1'', ''role-2'']
   \<and> map user_roleId (users (snd (actions_roles_delete example_store ''role-3''
            (actions_users_update john_as_viewer example_store)))) = [''role-1'', ''role-3'']
   \<and> actions_roles_delete (actions_users_update john_as_viewer example_store) ''role-3''
         (actions_users_update john_as_viewer example_store)
       = (Some ''Cannot delete a role that is assigned to users.'',
          actions_users_update john_as_viewer example_store)"
  by (simp add: actions_roles_delete_def actions_users_update_def is_system_role_def
      example_defs john_as_viewer_def)

section \<open>Deleting a tag\<close>

text \<open>
  Claim C5: \<open>tags.delete(id)\<close> removes the tag from the tags, from the tag list of the
  settings, and removes the id from the \<open>tagIds\<close> of every donor of the store.
\<close>

theorem tags_delete_cascades:
  "tags (actions_tags_delete i s) = filter (\<lambda>t. tag_id t \<noteq> i) (tags s)
   \<and> settings_tags (settings (actions_tags_delete i s))
       = filter (\<lambda>t. tag_id t \<noteq> i) (settings_tags (settings s))
   \<and> map (\<lambda>donor. or_empty (donor_tagIds donor)) (donors (actions_tags_delete i s))
       = map (\<lambda>donor. filter (\<lambda>tagId. tagId \<noteq> i) (or_empty (donor_tagIds donor))) (donors s)
   \<and> i \<notin> tag_id ` set (tags (actions_tags_delete i s))
   \<and> i \<notin> tag_id ` set (settings_tags (settings (actions_tags_delete i s)))
   \<and> i \<notin> \<Union> (set ` set (map (\<lambda>donor. or_empty (donor_tagIds donor)) (donors (actions_tags_delete i s))))"
  by (auto simp add: actions_tags_delete_def or_empty_def)

section \<open>The tags and the tag list of the settings\<close>

lemma step_keeps_tags_in_sync:
  "tags s = settings_tags (settings s) \<Longrightarrow> tags (step h c s) = settings_tags (settings (step h c s))"
  by (cases c) (simp_all add: action_defs split: option.splits sum.splits)

lemma step_leaves_tags:
  "\<not> writes_tags c \<Longrightarrow> tags (step h c s) = tags s \<and> settings (step h c s) = settings s"
  by (cases c) (simp_all add: action_defs split: option.splits sum.splits)

text \<open>
  Claim C10: every call of the mutation layer keeps the tags equal to the tag list of the
  settings: \<open>tags.add\<close>, \<open>tags.update\<close>, \<open>tags.delete\<close> and \<open>settings.update\<close> write both
  alike, and no other call writes either.
\<close>

theorem tags_equal_settings_tags_preserved:
  "(tags s = settings_tags (settings s)
      \<longrightarrow> tags (step h c s) = settings_tags (settings (step h c s)))
   \<and> (\<not> writes_tags c \<longrightarrow> tags (step h c s) = tags s \<and> settings (step h c s) = settings s)"
  using step_keeps_tags_in_sync step_leaves_tags by blast

theorem tags_equal_settings_tags_preserved_witness:
  "map tag_id (tags (step host_utc (Tags_delete ''tag-1'') example_store))
     = [''tag-2'', ''tag-3'', ''tag-4'']
   \<and> map tag_id (settings_tags (settings (step host_utc (Tags_delete ''tag-1'') example_store)))
     = [''tag-2'', ''tag-3'', ''tag-4'']
   \<and> tags (step host_utc (Donors_delete ''D1'') example_store) = mockTags
   \<and> settings (step host_utc (Donors_delete ''D1'') example_store) = mockSettings"
proof -
  have sync: "tags example_store = settings_tags (settings example_store)"
    by (simp add: example_defs mockSettings_def)
  have other: "\<not> writes_tags (Donors_delete ''D1'')"
    by simp
  from sync tags_equal_settings_tags_preserved [of example_store host_utc "Tags_delete ''tag-1''"]
  have same: "tags (step host_utc (Tags_delete ''tag-1'') example_store)
      = settings_tags (settings (step host_utc (Tags_delete ''tag-1'') example_store))"
    by blast
  from other tags_equal_settings_tags_preserved [of example_store host_utc "Donors_delete ''D1''"]
  have kept: "tags (step host_utc (Donors_delete ''D1'') example_store) = tags example_store"
    "settings (step host_utc (Donors_delete ''D1'') example_store) = settings example_store"
    by blast+
  have "map tag_id (tags (step host_utc (Tags_delete ''tag-1'') example_store))
      = [''tag-2'', ''tag-3'', ''tag-4'']"
    by (simp add: actions_tags_delete_def example_defs mockTags_def)
  with same kept show ?thesis
    by (simp add: example_defs)
qed

lemma run_keeps_tags_in_sync:
  "tags s = settings_tags (settings s) \<Longrightarrow> tags (run cs s) = settings_tags (settings (run cs s))"
  by (induction cs arbitrary: s) (auto simp add: step_keeps_tags_in_sync)

section \<open>The status of an outbox item\<close>

lemma outbox_ids_step:
  "is_outbox_call c \<Longrightarrow> map outbox_id (outbox (step h c s)) = map outbox_id (outbox s)"
  by (cases c) (simp_all add: action_defs set_status_def)

lemma outbox_status_step:
  "is_outbox_call c \<Longrightarrow>
   map outbox_status (outbox (step h c s))
     = map (\<lambda>item. case requested_status (outbox_id item) c of
                      None \<Rightarrow> outbox_status item | Some status \<Rightarrow> status) (outbox s)"
  by (cases c) (simp_all add: action_defs set_status_def)

lemma outbox_run:
  "list_all is_outbox_call (map snd cs) \<Longrightarrow>
   map outbox_id (outbox (run cs s)) = map outbox_id (outbox s) \<and>
   map outbox_status (outbox (run cs s))
     = map (\<lambda>item. final_status (map snd cs) (outbox_id item) (outbox_status item)) (outbox s)"
proof (induction cs arbitrary: s)
  case Nil
  then show ?case by simp
next
  case (Cons hc cs)
  obtain h c where hc: "hc = (h, c)" by (cases hc)
  from Cons.prems hc have c: "is_outbox_call c" and cs: "list_all is_outbox_call (map snd cs)"
    by simp_all
  have ids: "map outbox_id (outbox (step h c s)) = map outbox_id (outbox s)"
    using c by (rule outbox_ids_step)
  have len: "length (outbox (step h c s)) = length (outbox s)"
    using ids by (metis length_map)
  have st: "map outbox_status (outbox (step h c s))
     = map (\<lambda>item. case requested_status (outbox_id item) c of
                      None \<Rightarrow> outbox_status item | Some status \<Rightarrow> status) (outbox s)"
    using c by (rule outbox_status_step)
  from Cons.IH [OF cs, of "step h c s"]
  have IH1: "map outbox_id (outbox (run cs (step h c s))) = map outbox_id (outbox (step h c s))"
    and IH2: "map outbox_status (outbox (run cs (step h c s)))
     = map (\<lambda>item. final_status (map snd cs) (outbox_id item) (outbox_status item)) (outbox (step h c s))"
    by simp_all
  have "map (\<lambda>item. final_status (map snd cs) (outbox_id item) (outbox_status item)) (outbox (step h c s))
      = map (\<lambda>item. final_status (c # map snd cs) (outbox_id item) (outbox_status item)) (outbox s)"
  proof (rule nth_equalityI)
    show "length (map (\<lambda>item. final_status (map snd cs) (outbox_id item) (outbox_status item)) (outbox (step h c s)))
        = length (map (\<lambda>item. final_status (c # map snd cs) (outbox_id item) (outbox_status item)) (outbox s))"
      using len by simp
  next
    fix k assume "k < length (map (\<lambda>item. final_status (map snd cs) (outbox_id item) (outbox_status item)) (outbox (step h c s)))"
    then have k: "k < length (outbox s)" using len by simp
    have a: "outbox_id (outbox (step h c s) ! k) = outbox_id (outbox s ! k)"
      using ids k len by (metis nth_map)
    have b: "outbox_status (outbox (step h c s) ! k)
        = (case requested_status (outbox_id (outbox s ! k)) c of
             None \<Rightarrow> outbox_status (outbox s ! k) | Some status \<Rightarrow> status)"
    proof -
      have "outbox_status (outbox (step h c s) ! k) = map outbox_status (outbox (step h c s)) ! k"
        using k len by simp
      also have "\<dots> = (case requested_status (outbox_id (outbox s ! k)) c of
             None \<Rightarrow> outbox_status (outbox s ! k) | Some status \<Rightarrow> status)"
        unfolding st using k by simp
      finally show ?thesis .
    qed
    show "map (\<lambda>item. final_status (map snd cs) (outbox_id item) (outbox_status item)) (outbox (step h c s)) ! k
        = map (\<lambda>item. final_status (c # map snd cs) (outbox_id item) (outbox_status item)) (outbox s) ! k"
      using k len a b by simp
  qed
  with IH1 IH2 ids hc show ?case by simp
qed

text \<open>
  Claim C9: under every sequence of \<open>outbox.updateStatus\<close> and \<open>outbox.retry\<close> calls an
  item only goes from ready to sent, from ready to failed and, by retry, from failed to
  ready; no other transition occurs.

  The claim fails: a retry of a sent item makes it ready to send again.
\<close>

theorem outbox_retry_of_sent_item_counterexample:
  "map outbox_status
     (outbox (actions_outbox_updateStatus host_utc ''outbox-1709300000000'' Sent None
                (actions_outbox_add host_utc ''R1'' example_store))) = [Sent]
   \<and> map outbox_status
       (outbox (actions_outbox_retry ''outbox-1709300000000''
                  (actions_outbox_updateStatus host_utc ''outbox-1709300000000'' Sent None
                     (actions_outbox_add host_utc ''R1'' example_store)))) = [Ready_to_Send]"
  by (simp add: action_defs example_defs add_defs set_status_def date_eval)

text \<open>
  Claim C9 as amended: the layer checks no transition. Under every sequence of
  \<open>outbox.updateStatus\<close> and \<open>outbox.retry\<close> calls the items and their order stay, and
  each item ends in the status asked for by the last call made with its id, whatever its
  status was, or keeps its status when no call was made with its id; a retry asks for
  ready to send and clears the error of the items of its id.
\<close>

theorem outbox_status_follows_last_call:
  "list_all is_outbox_call (map snd cs) \<Longrightarrow>
   map outbox_id (outbox (run cs s)) = map outbox_id (outbox s)
   \<and> map outbox_status (outbox (run cs s))
       = map (\<lambda>item. final_status (map snd cs) (outbox_id item) (outbox_status item)) (outbox s)
   \<and> map outbox_error (outbox (actions_outbox_retry i s))
       = map (\<lambda>item. if outbox_id item = i then None else outbox_error item) (outbox s)"
  using outbox_run [of cs s] by (simp add: actions_outbox_retry_def)

theorem outbox_status_follows_last_call_witness:
  "map outbox_status
     (outbox (run [(host_utc, Outbox_updateStatus ''outbox-1709300000000'' Failed (Some ''No email'')),
                   (host_utc, Outbox_updateStatus ''outbox-1709300000000'' Sent None),
                   (host_utc, Outbox_retry ''outbox-1709300000000'')]
                  (actions_outbox_add host_utc ''R1'' example_store))) = [Ready_to_Send]"
proof -
  have calls: "list_all is_outbox_call
     (map snd [(host_utc, Outbox_updateStatus ''outbox-1709300000000'' Failed (Some ''No email'')),
               (host_utc, Outbox_updateStatus ''outbox-1709300000000'' Sent None),
               (host_utc, Outbox_retry ''outbox-1709300000000'')])"
    by simp
  have start: "map outbox_id (outbox (actions_outbox_add host_utc ''R1'' example_store))
      = [''outbox-1709300000000'']"
    "map outbox_status (outbox (actions_outbox_add host_utc ''R1'' example_store))
      = [Ready_to_Send]"
    by (simp_all add: action_defs example_defs add_defs date_eval)
  obtain item where item: "outbox (actions_outbox_add host_utc ''R1'' example_store) = [item]"
    using start(1) by auto
  with start have "outbox_id item = ''outbox-1709300000000''" "outbox_status item = Ready_to_Send"
    by simp_all
  with item outbox_status_follows_last_call [OF calls,
      of "actions_outbox_add host_utc ''R1'' example_store"]
  show ?thesis by simp
qed


section \<open>Backups\<close>

lemmas file_defs = dq_def quoted_def file_null_donations_def file_minimal_def snapshot_text_def
  host_files_def backup_empty_def raw_example_def defaults_def table_host_def

lemma step_keeps_backups: "backups (step h c s) = backups s"
  by (cases c) (simp_all add: action_defs split: option.splits sum.splits)

lemma run_keeps_backups: "backups (run cs s) = backups s"
  by (induction cs arbitrary: s) (auto simp add: step_keeps_backups)

lemma truthy_array_of [simp]: "truthy (array_of f xs)"
  by (simp add: array_of_def)

lemma truthy_settings [simp]: "truthy (json_of_settings st)"
  by (simp add: json_of_settings_def)

lemma snapshot_not_null [simp]: "stateToBackup r \<noteq> JNull"
  by (simp add: stateToBackup_def)

lemma property_of_snapshot:
  "property (stateToBackup r) ''donors'' = Some (raw_donors r)"
  "property (stateToBackup r) ''donations'' = Some (raw_donations r)"
  "property (stateToBackup r) ''pledges'' = Some (raw_pledges r)"
  "property (stateToBackup r) ''recurringProfiles'' = Some (raw_recurringProfiles r)"
  "property (stateToBackup r) ''users'' = Some (raw_users r)"
  "property (stateToBackup r) ''roles'' = Some (raw_roles r)"
  "property (stateToBackup r) ''settings'' = Some (raw_settings r)"
  "property (stateToBackup r) ''outbox'' = Some (raw_outbox r)"
  "property (stateToBackup r) ''communicationQueue'' = Some (raw_communicationQueue r)"
  "property (stateToBackup r) ''tags'' = Some (raw_tags r)"
  by (simp_all add: property_def stateToBackup_def)

lemma jsonify_array_of: "jsonify (array_of f xs) = JArray (map (\<lambda>x. jsonify (f x)) xs)"
  by (simp add: array_of_def)

lemma truthy_jsonify_array_of [simp]: "truthy (jsonify (array_of f xs))"
  by (simp add: jsonify_array_of)

lemma truthy_jsonify_settings [simp]: "truthy (jsonify (json_of_settings st))"
  by (simp add: json_of_settings_def)

lemma jsonify_snapshot: "jsonify (stateToBackup r) = stateToBackup (jsonify_store r)"
  by (simp add: stateToBackup_def jsonify_store_def)

lemma jsonify_store_finite: "finite_numbers (stateToBackup r) \<Longrightarrow> jsonify_store r = r"
  by (cases r) (simp add: finite_numbers_def stateToBackup_def jsonify_store_def)

text \<open>
  The cells after \<open>restoreStateFromData\<close> of the parsed text of a snapshot: no fallback is
  taken, since the cells of a store are arrays and an object.
\<close>

lemma restore_of_snapshot:
  "restoreStateFromData (jsonify (stateToBackup (reify s))) r
     = Inr ((jsonify_store (reify s))\<lparr>raw_backups := raw_backups r\<rparr>)"
  by (cases r)
     (simp add: restoreStateFromData_def property_or_def jsonify_snapshot property_of_snapshot,
      simp add: jsonify_store_def reify_def)

lemma create_of_store:
  "actions_backups_create h (reify s) (reify s)
     = (newBackup h (reify s), reify (s\<lparr>backups := newBackup h (reify s) # backups s\<rparr>))"
  by (simp add: actions_backups_create_def reify_def)

lemma parse_files:
  "JSON_parse host_files snapshot_text = Some (jsonify (stateToBackup (reify example_store)))"
  "JSON_parse host_files ''{}'' = Some (JObject [])"
  "JSON_parse host_files file_null_donations = Some (JObject [(''donors'', JArray []), (''donations'', JNull)])"
  "JSON_parse host_files file_minimal = Some (JObject [(''donors'', JArray []), (''donations'', JArray [])])"
  "JSON_parse host_files ''not json'' = None"
  by (simp_all add: file_defs)

lemma stringify_snapshot:
  "JSON_stringify host_files (stateToBackup (reify example_store)) = snapshot_text"
  by (simp add: host_files_def table_host_def)

lemma raw_backups_reify: "raw_backups (reify s) = backups s"
  by (simp add: reify_def)

lemma now_files: "decimal (now host_files) = ''1709300000000''"
  by (simp add: host_files_def table_host_def date_eval)

subsection \<open>The cells determine the store\<close>

lemma array_of_eq_iff: "inj f \<Longrightarrow> array_of f xs = array_of f ys \<longleftrightarrow> xs = ys"
  by (simp add: array_of_def inj_map_eq_map)

lemma inj_JString: "inj JString"
  by (simp add: inj_on_def)

lemma inj_method_text: "inj method_text"
  by (rule injI) (rename_tac a b, case_tac a; case_tac b; simp)

lemma inj_purpose_text: "inj purpose_text"
  by (rule injI) (rename_tac a b, case_tac a; case_tac b; simp)

lemma inj_recurring_text: "inj recurring_text"
  by (rule injI) (rename_tac a b, case_tac a; case_tac b; simp)

lemma inj_frequency_text: "inj frequency_text"
  by (rule injI) (rename_tac a b, case_tac a; case_tac b; simp)

lemma inj_pledge_status_text: "inj pledge_status_text"
  by (rule injI) (rename_tac a b, case_tac a; case_tac b; simp)

lemma inj_profile_status_text: "inj profile_status_text"
  by (rule injI) (rename_tac a b, case_tac a; case_tac b; simp)

lemma inj_user_status_text: "inj user_status_text"
  by (rule injI) (rename_tac a b, case_tac a; case_tac b; simp)

lemma inj_outbox_status_text: "inj outbox_status_text"
  by (rule injI) (rename_tac a b, case_tac a; case_tac b; simp)

lemma inj_queue_status_text: "inj queue_status_text"
  by (rule injI) (rename_tac a b, case_tac a; case_tac b; simp)

lemma inj_log_channel_text: "inj log_channel_text"
  by (rule injI) (rename_tac a b, case_tac a; case_tac b; simp)

lemma inj_channel_text: "inj channel_text"
  by (rule injI) (rename_tac a b, case_tac a; case_tac b; simp)

lemma inj_template_type_text: "inj template_type_text"
  by (rule injI) (rename_tac a b, case_tac a; case_tac b; simp)

lemma inj_permission_text: "inj permission_text"
  by (rule injI) (rename_tac a b, case_tac a; case_tac b; simp)

lemmas text_eq_iff =
  inj_eq [OF inj_method_text] inj_eq [OF inj_purpose_text] inj_eq [OF inj_recurring_text]
  inj_eq [OF inj_frequency_text] inj_eq [OF inj_pledge_status_text]
  inj_eq [OF inj_profile_status_text] inj_eq [OF inj_user_status_text]
  inj_eq [OF inj_outbox_status_text] inj_eq [OF inj_queue_status_text]
  inj_eq [OF inj_log_channel_text] inj_eq [OF inj_channel_text]
  inj_eq [OF inj_template_type_text] inj_eq [OF inj_permission_text]

lemma inj_json_of_history: "inj json_of_history"
  by (rule injI) (rename_tac a b, case_tac a, case_tac b, simp add: json_of_history_def)

lemma inj_json_of_log: "inj json_of_log"
  by (rule injI) (rename_tac a b, case_tac a, case_tac b, simp add: json_of_log_def text_eq_iff)

lemma inj_json_of_contact: "inj json_of_contact"
  by (rule injI) (rename_tac a b, case_tac a, case_tac b, simp add: json_of_contact_def)

lemma inj_json_of_tag: "inj json_of_tag"
  by (rule injI) (rename_tac a b, case_tac a, case_tac b, simp add: json_of_tag_def)

lemma inj_json_of_task: "inj json_of_task"
  by (rule injI) (rename_tac a b, case_tac a, case_tac b, simp add: json_of_task_def)

lemma inj_permission_json: "inj (\<lambda>p. JString (permission_text p))"
  by (rule injI) (simp add: text_eq_iff)

lemmas array_eq_iff =
  array_of_eq_iff [OF inj_JString] array_of_eq_iff [OF inj_json_of_history]
  array_of_eq_iff [OF inj_json_of_log] array_of_eq_iff [OF inj_json_of_contact]
  array_of_eq_iff [OF inj_json_of_tag] array_of_eq_iff [OF inj_json_of_task]
  array_of_eq_iff [OF inj_permission_json]

lemma inj_json_of_donor: "inj json_of_donor"
  by (rule injI)
     (rename_tac a b, case_tac a, case_tac b,
      simp add: json_of_donor_def optional_def array_eq_iff split: option.splits)

lemma inj_json_of_donation: "inj json_of_donation"
  by (rule injI)
     (rename_tac a b, case_tac a, case_tac b,
      simp add: json_of_donation_def optional_def text_eq_iff split: option.splits)

lemma inj_json_of_pledge: "inj json_of_pledge"
  by (rule injI)
     (rename_tac a b, case_tac a, case_tac b,
      simp add: json_of_pledge_def optional_def text_eq_iff array_eq_iff split: option.splits)

lemma inj_json_of_profile: "inj json_of_profile"
  by (rule injI)
     (rename_tac a b, case_tac a, case_tac b,
      simp add: json_of_profile_def optional_def text_eq_iff split: option.splits)

lemma inj_json_of_role: "inj json_of_role"
  by (rule injI)
     (rename_tac a b, case_tac a, case_tac b,
      simp add: json_of_role_def optional_def array_eq_iff split: option.splits)

lemma inj_json_of_user: "inj json_of_user"
  by (rule injI)
     (rename_tac a b, case_tac a, case_tac b,
      simp add: json_of_user_def optional_def text_eq_iff split: option.splits)

lemma inj_json_of_template: "inj json_of_template"
  by (rule injI)
     (rename_tac a b, case_tac a, case_tac b,
      simp add: json_of_template_def optional_def text_eq_iff split: option.splits)

lemma inj_json_of_settings: "inj json_of_settings"
  by (rule injI)
     (rename_tac a b, case_tac a, case_tac b,
      simp add: json_of_settings_def array_eq_iff array_of_eq_iff [OF inj_json_of_template])

lemma inj_json_of_item: "inj json_of_item"
proof (rule injI)
  fix a b
  assume "json_of_item a = json_of_item b"
  then show "a = b"
    by (cases a, cases b, cases "outbox_info a"; cases "outbox_info b")
       (simp_all add: json_of_item_def optional_def text_eq_iff split: option.splits)
qed

lemma inj_json_of_queued: "inj json_of_queued"
  by (rule injI)
     (rename_tac a b, case_tac a, case_tac b,
      simp add: json_of_queued_def optional_def text_eq_iff split: option.splits)

lemma reify_inject: "reify s = reify s' \<Longrightarrow> s = s'"
  by (cases s, cases s')
     (simp add: reify_def array_eq_iff inj_eq [OF inj_json_of_settings]
        array_of_eq_iff [OF inj_json_of_donor] array_of_eq_iff [OF inj_json_of_donation]
        array_of_eq_iff [OF inj_json_of_pledge] array_of_eq_iff [OF inj_json_of_profile]
        array_of_eq_iff [OF inj_json_of_user] array_of_eq_iff [OF inj_json_of_role]
        array_of_eq_iff [OF inj_json_of_item] array_of_eq_iff [OF inj_json_of_queued])

subsection \<open>Create, then restore\<close>

text \<open>
  A restore on an \<open>actions\<close> object whose render shows the created backup first among the
  backups of its id, for a host whose \<open>JSON\<close> is the built-in pair on the snapshot.
\<close>

lemma restore_of_created:
  assumes "JSON_parse h' (JSON_stringify h (stateToBackup (reify s)))
             = Some (jsonify (stateToBackup (reify s)))"
    and "find (\<lambda>b. backup_id b = backup_id (newBackup h (reify s))) (raw_backups c)
             = Some (newBackup h (reify s))"
  shows "actions_backups_restore h' c (backup_id (newBackup h (reify s))) r
           = Inr ((jsonify_store (reify s))\<lparr>raw_backups := raw_backups r\<rparr>)"
proof -
  have "JSON_parse h' (backup_data (newBackup h (reify s))) = Some (jsonify (stateToBackup (reify s)))"
    using assms(1) by (simp add: newBackup_def)
  then show ?thesis
    unfolding actions_backups_restore_def assms(2) by (simp add: restore_of_snapshot)
qed

lemma now_nan: "backup_id (newBackup host_nan (reify store_nan)) = ''backup-1709300000000''"
  by (simp add: newBackup_def host_nan_def table_host_def date_eval)

lemma pledges_nan:
  "pledges store_nan
     = [\<lparr>pledge_id = ''pledge-1709300000000'', pledge_donorId = ''D1'', pledge_amount = NaN,
         pledge_dueDate = ''2024-04-01'', pledge_status = Pending, pledge_tasks = Some []\<rparr>]"
  by (simp add: store_nan_def actions_pledges_add_def new_pledge_def pledge_nan_def example_defs
      date_eval)

lemma jsonify_info: "map (map_prod id jsonify) (json_of_info i) = json_of_info i"
  by (cases i) simp_all

lemma jsonify_strings:
  "jsonify (json_of_tag t) = json_of_tag t"
  "jsonify (json_of_user u) = json_of_user u"
  "jsonify (json_of_role ro) = json_of_role ro"
  "jsonify (json_of_template te) = json_of_template te"
  "jsonify (json_of_item it) = json_of_item it"
  "jsonify (json_of_queued q) = json_of_queued q"
  "jsonify (json_of_log l) = json_of_log l"
  "jsonify (json_of_contact co) = json_of_contact co"
  "jsonify (json_of_task ta) = json_of_task ta"
  by (simp_all add: json_of_tag_def json_of_user_def json_of_role_def json_of_template_def
      json_of_item_def json_of_queued_def json_of_log_def json_of_contact_def json_of_task_def
      optional_def array_of_def comp_def jsonify_info
      split: option.splits)

lemma jsonify_arrays:
  "jsonify (array_of json_of_tag ts) = array_of json_of_tag ts"
  "jsonify (array_of json_of_user us) = array_of json_of_user us"
  "jsonify (array_of json_of_role rs) = array_of json_of_role rs"
  "jsonify (array_of json_of_item its) = array_of json_of_item its"
  "jsonify (array_of json_of_queued qs) = array_of json_of_queued qs"
  "jsonify (array_of f []) = array_of f []"
  by (simp_all add: jsonify_array_of jsonify_strings array_of_def)

lemma jsonify_settings: "jsonify (json_of_settings st) = json_of_settings st"
  by (simp add: json_of_settings_def jsonify_array_of jsonify_strings array_of_def)

lemma jsonify_example_donors:
  "jsonify (array_of json_of_donor (donors example_store)) = array_of json_of_donor (donors example_store)"
  by (simp add: example_defs array_of_def json_of_donor_def optional_def)

lemma jsonify_store_reify:
  "jsonify_store (reify s)
     = \<lparr>raw_donors = jsonify (array_of json_of_donor (donors s)),
        raw_donations = jsonify (array_of json_of_donation (donations s)),
        raw_pledges = jsonify (array_of json_of_pledge (pledges s)),
        raw_recurringProfiles = jsonify (array_of json_of_profile (recurringProfiles s)),
        raw_users = array_of json_of_user (users s),
        raw_roles = array_of json_of_role (roles s),
        raw_settings = json_of_settings (settings s),
        raw_outbox = array_of json_of_item (outbox s),
        raw_communicationQueue = array_of json_of_queued (communicationQueue s),
        raw_tags = array_of json_of_tag (tags s),
        raw_backups = backups s\<rparr>"
  by (simp add: jsonify_store_def reify_def jsonify_arrays jsonify_settings)

lemma jsonify_example_store: "jsonify_store (reify example_store) = reify example_store"
proof -
  have "donations example_store = []" "pledges example_store = []"
    "recurringProfiles example_store = []"
    by (simp_all add: example_store_def)
  then show ?thesis
    unfolding jsonify_store_reify
    by (simp add: jsonify_example_donors jsonify_arrays reify_def)
qed

text \<open>
  Claim C3: for every store, \<open>backups.create()\<close> followed, after any sequence of further
  mutations, by \<open>backups.restore\<close> of the created backup's id restores each of the ten
  tracked collections to exactly what it held at create time, and leaves the backups as
  they were before the restore.

  The claim fails at a store that holds a number that is not finite. A pledge is added
  with the amount \<open>NaN\<close>; a backup is created and, on the \<open>actions\<close> object of the next
  render, restored with no mutation in between: the pledge comes back with the amount
  \<open>null\<close>, which is what \<open>JSON.stringify\<close> writes for \<open>NaN\<close>.
\<close>

theorem backup_round_trip_nan_counterexample:
  "actions_backups_create host_nan (reify store_nan) (reify store_nan)
     = (newBackup host_nan (reify store_nan),
        reify (store_nan\<lparr>backups := [newBackup host_nan (reify store_nan)]\<rparr>))
   \<and> raw_pledges (reify store_nan)
       = JArray [JObject [(''id'', JString ''pledge-1709300000000''), (''donorId'', JString ''D1''),
                          (''amount'', JNumber NaN), (''dueDate'', JString ''2024-04-01''),
                          (''status'', JString ''Pending''), (''tasks'', JArray [])]]
   \<and> actions_backups_restore host_nan
         (reify (store_nan\<lparr>backups := [newBackup host_nan (reify store_nan)]\<rparr>))
         ''backup-1709300000000''
         (reify (store_nan\<lparr>backups := [newBackup host_nan (reify store_nan)]\<rparr>))
       = Inr ((reify (store_nan\<lparr>backups := [newBackup host_nan (reify store_nan)]\<rparr>))
                \<lparr>raw_pledges :=
                   JArray [JObject [(''id'', JString ''pledge-1709300000000''),
                                    (''donorId'', JString ''D1''), (''amount'', JNull),
                                    (''dueDate'', JString ''2024-04-01''),
                                    (''status'', JString ''Pending''), (''tasks'', JArray [])]]\<rparr>)"
proof -
  let ?b = "newBackup host_nan (reify store_nan)"
  let ?s1 = "store_nan\<lparr>backups := [?b]\<rparr>"
  have none: "backups store_nan = []"
    by (simp add: store_nan_def actions_pledges_add_def example_defs)
  have created: "actions_backups_create host_nan (reify store_nan) (reify store_nan) = (?b, reify ?s1)"
    using create_of_store [of host_nan store_nan] by (simp add: none)
  have cell: "raw_pledges (reify store_nan)
       = JArray [JObject [(''id'', JString ''pledge-1709300000000''), (''donorId'', JString ''D1''),
                          (''amount'', JNumber NaN), (''dueDate'', JString ''2024-04-01''),
                          (''status'', JString ''Pending''), (''tasks'', JArray [])]]"
    by (simp add: reify_def pledges_nan array_of_def json_of_pledge_def optional_def)
  have host: "JSON_parse host_nan (JSON_stringify host_nan (stateToBackup (reify store_nan)))
      = Some (jsonify (stateToBackup (reify store_nan)))"
    by (simp add: host_nan_def table_host_def)
  have found: "find (\<lambda>b. backup_id b = backup_id ?b) (raw_backups (reify ?s1)) = Some ?b"
    by (simp add: reify_def)
  have others: "donors store_nan = donors example_store" "donations store_nan = []"
    "recurringProfiles store_nan = []"
    by (simp_all add: store_nan_def actions_pledges_add_def example_defs)
  have null: "jsonify (array_of json_of_pledge (pledges store_nan))
      = JArray [JObject [(''id'', JString ''pledge-1709300000000''),
                         (''donorId'', JString ''D1''), (''amount'', JNull),
                         (''dueDate'', JString ''2024-04-01''),
                         (''status'', JString ''Pending''), (''tasks'', JArray [])]]"
    by (simp add: pledges_nan array_of_def json_of_pledge_def optional_def)
  have "jsonify_store (reify store_nan)
      = (reify store_nan)
          \<lparr>raw_pledges :=
             JArray [JObject [(''id'', JString ''pledge-1709300000000''),
                              (''donorId'', JString ''D1''), (''amount'', JNull),
                              (''dueDate'', JString ''2024-04-01''),
                              (''status'', JString ''Pending''), (''tasks'', JArray [])]]\<rparr>"
    unfolding jsonify_store_reify null
    by (simp add: others jsonify_example_donors jsonify_arrays reify_def)
  with restore_of_created [OF host found, of "reify ?s1"] now_nan
  have "actions_backups_restore host_nan (reify ?s1) ''backup-1709300000000'' (reify ?s1)
      = Inr ((reify store_nan)
          \<lparr>raw_pledges :=
             JArray [JObject [(''id'', JString ''pledge-1709300000000''),
                              (''donorId'', JString ''D1''), (''amount'', JNull),
                              (''dueDate'', JString ''2024-04-01''),
                              (''status'', JString ''Pending''), (''tasks'', JArray [])]],
           raw_backups := raw_backups (reify ?s1)\<rparr>)"
    by simp
  then have "actions_backups_restore host_nan (reify ?s1) ''backup-1709300000000'' (reify ?s1)
      = Inr ((reify ?s1)
          \<lparr>raw_pledges :=
             JArray [JObject [(''id'', JString ''pledge-1709300000000''),
                              (''donorId'', JString ''D1''), (''amount'', JNull),
                              (''dueDate'', JString ''2024-04-01''),
                              (''status'', JString ''Pending''), (''tasks'', JArray [])]]\<rparr>)"
    by (simp add: reify_def)
  with created cell show ?thesis by simp
qed

text \<open>
  Claim C3 as amended: for every store whose numbers are finite, \<open>backups.create()\<close> on the
  \<open>actions\<close> object of a render of that store, followed, after any sequence of calls of the
  mutation layer, by \<open>backups.restore\<close> of the created backup's id on the \<open>actions\<close> object
  of a render that shows the backups of then, restores each of the ten tracked collections
  to exactly what it held at create time, and leaves the backups as they were before the
  restore.

  The store at create time is \<open>s\<close>, its cells \<open>reify s\<close>; the mutations are any calls
  \<open>cs\<close>, each with a host of its own; \<open>c\<close> is the render of the restore. After the restore
  the cells are those of \<open>s\<close> with the backups of the store the restore started from, and
  by \<open>reify_inject\<close> of no other store. The hosts \<open>h\<close> of the create and \<open>h'\<close> of the
  restore are any whose \<open>JSON\<close> acts on the snapshot as the built-in pair does.
\<close>

theorem backup_create_restore_round_trip:
  assumes host: "JSON_parse h' (JSON_stringify h (stateToBackup (reify s)))
                   = Some (jsonify (stateToBackup (reify s)))"
    and finite: "finite_numbers (stateToBackup (reify s))"
    and render: "raw_backups c
                   = backups (run cs (s\<lparr>backups := newBackup h (reify s) # backups s\<rparr>))"
  shows "actions_backups_create h (reify s) (reify s)
           = (newBackup h (reify s), reify (s\<lparr>backups := newBackup h (reify s) # backups s\<rparr>))
         \<and> actions_backups_restore h' c (backup_id (newBackup h (reify s)))
               (reify (run cs (s\<lparr>backups := newBackup h (reify s) # backups s\<rparr>)))
             = Inr (reify (s\<lparr>backups :=
                       backups (run cs (s\<lparr>backups := newBackup h (reify s) # backups s\<rparr>))\<rparr>))
         \<and> backups (run cs (s\<lparr>backups := newBackup h (reify s) # backups s\<rparr>))
             = newBackup h (reify s) # backups s"
proof -
  let ?b = "newBackup h (reify s)"
  let ?s2 = "run cs (s\<lparr>backups := ?b # backups s\<rparr>)"
  have kept: "backups ?s2 = ?b # backups s"
    by (simp add: run_keeps_backups)
  have found: "find (\<lambda>b. backup_id b = backup_id ?b) (raw_backups c) = Some ?b"
    unfolding render kept by simp
  have "actions_backups_restore h' c (backup_id ?b) (reify ?s2)
      = Inr ((jsonify_store (reify s))\<lparr>raw_backups := raw_backups (reify ?s2)\<rparr>)"
    using host found by (rule restore_of_created)
  also have "jsonify_store (reify s) = reify s"
    using finite by (rule jsonify_store_finite)
  also have "(reify s)\<lparr>raw_backups := raw_backups (reify ?s2)\<rparr> = reify (s\<lparr>backups := backups ?s2\<rparr>)"
    by (simp add: reify_def)
  finally show ?thesis
    using kept create_of_store by simp
qed

theorem backup_create_restore_round_trip_witness:
  "actions_backups_restore host_files
     (reify (run [(host_files, Donors_delete ''D1''), (host_files, Tags_delete ''tag-1'')]
               (example_store\<lparr>backups := [newBackup host_files (reify example_store)]\<rparr>)))
     ''backup-1709300000000''
     (reify (run [(host_files, Donors_delete ''D1''), (host_files, Tags_delete ''tag-1'')]
               (example_store\<lparr>backups := [newBackup host_files (reify example_store)]\<rparr>)))
   = Inr (reify (example_store\<lparr>backups := [newBackup host_files (reify example_store)]\<rparr>))"
proof -
  let ?cs = "[(host_files, Donors_delete ''D1''), (host_files, Tags_delete ''tag-1'')]"
  have host: "JSON_parse host_files (JSON_stringify host_files (stateToBackup (reify example_store)))
      = Some (jsonify (stateToBackup (reify example_store)))"
    by (simp add: stringify_snapshot parse_files)
  have finite: "finite_numbers (stateToBackup (reify example_store))"
    by (simp add: finite_numbers_def jsonify_snapshot jsonify_example_store)
  have id: "backup_id (newBackup host_files (reify example_store)) = ''backup-1709300000000''"
    by (simp add: newBackup_def now_files)
  have none: "backups example_store = []"
    by (simp add: example_store_def)
  have render: "raw_backups (reify (run ?cs
        (example_store\<lparr>backups := newBackup host_files (reify example_store) # backups example_store\<rparr>)))
      = backups (run ?cs
        (example_store\<lparr>backups := newBackup host_files (reify example_store) # backups example_store\<rparr>))"
    by (rule raw_backups_reify)
  note round_trip = backup_create_restore_round_trip [OF host finite render, unfolded id none]
  from round_trip
  have kept: "backups (run ?cs
               (example_store\<lparr>backups := [newBackup host_files (reify example_store)]\<rparr>))
      = [newBackup host_files (reify example_store)]"
    by simp
  from round_trip show ?thesis
    unfolding kept by (rule conjunct1 [OF conjunct2])
qed

subsection \<open>Restoring from a file\<close>

text \<open>
  Claim C6: for every text that parses as a JSON object without a \<open>donations\<close> key, or
  without a \<open>donors\<close> key, \<open>backups.restoreFromFile\<close> returns \<open>success: false\<close> with an
  error message and leaves every cell of the store as it was.
\<close>

theorem restoreFromFile_missing_key_fails:
  assumes "JSON_parse h jsonData = Some (JObject kvs)"
    and "''donations'' \<notin> fst ` set kvs \<or> ''donors'' \<notin> fst ` set kvs"
  shows "actions_backups_restoreFromFile h jsonData r
           = (\<lparr>success = False, error_message = Some ''Invalid backup file format.''\<rparr>, r)"
proof -
  have absent: "\<not> truthy_property (JObject kvs) key" if "key \<notin> fst ` set kvs" for key
  proof -
    from that have "map_of kvs key = None"
      by (simp add: map_of_eq_None_iff)
    then show ?thesis
      by (simp add: truthy_property_def property_def)
  qed
  from assms(2) absent
  have "\<not> truthy_property (JObject kvs) ''donors'' \<or> \<not> truthy_property (JObject kvs) ''donations''"
    by blast
  with assms(1) show ?thesis
    by (auto simp add: actions_backups_restoreFromFile_def)
qed

theorem restoreFromFile_missing_key_fails_witness:
  "actions_backups_restoreFromFile host_files ''{}'' raw_example
     = (\<lparr>success = False, error_message = Some ''Invalid backup file format.''\<rparr>, raw_example)"
proof -
  have parsed: "JSON_parse host_files ''{}'' = Some (JObject [])"
    by (rule parse_files)
  have missing: "''donations'' \<notin> fst ` set [] \<or> ''donors'' \<notin> fst ` set []"
    by simp
  from restoreFromFile_missing_key_fails [OF parsed missing] show ?thesis .
qed

text \<open>
  Claim C7: \<open>backups.restoreFromFile\<close> never throws, and returns \<open>success: true\<close> if and
  only if the text parses and the parsed object has the keys \<open>donors\<close> and \<open>donations\<close>.

  The claim fails: the text \<open>{"donors":[],"donations":null}\<close> parses to an object with
  both keys, and the result is \<open>success: false\<close>.
\<close>

theorem restoreFromFile_null_donations_counterexample:
  "JSON_parse host_files file_null_donations
     = Some (JObject [(''donors'', JArray []), (''donations'', JNull)])
   \<and> actions_backups_restoreFromFile host_files file_null_donations raw_example
     = (\<lparr>success = False, error_message = Some ''Invalid backup file format.''\<rparr>, raw_example)"
  by (simp add: parse_files actions_backups_restoreFromFile_def truthy_property_def property_def)

text \<open>
  Claim C7 as amended: \<open>backups.restoreFromFile\<close> always returns a result, and it returns
  \<open>success: true\<close>, without an error, if and only if the text parses and the \<open>donors\<close>
  and the \<open>donations\<close> property of the parsed value are both truthy (present and not
  \<open>null\<close>, \<open>false\<close>, \<open>0\<close> or the empty string); in every other case it returns
  \<open>success: false\<close> with one of its two error strings and leaves the store as it was.
\<close>

theorem restoreFromFile_succeeds_iff_truthy:
  "(success (fst (actions_backups_restoreFromFile h jsonData r))
      \<longleftrightarrow> (\<exists>parsedData. JSON_parse h jsonData = Some parsedData
             \<and> truthy_property parsedData ''donors'' \<and> truthy_property parsedData ''donations''))
   \<and> (success (fst (actions_backups_restoreFromFile h jsonData r))
      \<longrightarrow> error_message (fst (actions_backups_restoreFromFile h jsonData r)) = None)
   \<and> (\<not> success (fst (actions_backups_restoreFromFile h jsonData r))
      \<longrightarrow> (error_message (fst (actions_backups_restoreFromFile h jsonData r))
             = Some ''Invalid backup file format.''
           \<or> error_message (fst (actions_backups_restoreFromFile h jsonData r))
             = Some ''Failed to parse backup file.'')
          \<and> snd (actions_backups_restoreFromFile h jsonData r) = r)"
proof (cases "JSON_parse h jsonData")
  case None
  then show ?thesis by (simp add: actions_backups_restoreFromFile_def)
next
  case (Some d)
  have null: "\<not> truthy_property JNull ''donors''"
    by (simp add: truthy_property_def property_def)
  show ?thesis
  proof (cases "d = JNull")
    case True
    with Some null show ?thesis by (simp add: actions_backups_restoreFromFile_def)
  next
    case False
    with Some show ?thesis
      by (simp add: actions_backups_restoreFromFile_def restoreStateFromData_def)
  qed
qed

theorem restoreFromFile_succeeds_iff_truthy_witness:
  "success (fst (actions_backups_restoreFromFile host_files file_minimal raw_example))
   \<and> error_message (fst (actions_backups_restoreFromFile host_files file_minimal raw_example)) = None
   \<and> snd (actions_backups_restoreFromFile host_files file_minimal raw_example)
       = defaults\<lparr>raw_backups := [backup_empty]\<rparr>
   \<and> actions_backups_restoreFromFile host_files ''not json'' raw_example
       = (\<lparr>success = False, error_message = Some ''Failed to parse backup file.''\<rparr>, raw_example)"
proof -
  have ok: "\<exists>parsedData. JSON_parse host_files file_minimal = Some parsedData
      \<and> truthy_property parsedData ''donors'' \<and> truthy_property parsedData ''donations''"
    by (simp add: parse_files truthy_property_def property_def)
  have bad: "\<not> (\<exists>parsedData. JSON_parse host_files ''not json'' = Some parsedData
      \<and> truthy_property parsedData ''donors'' \<and> truthy_property parsedData ''donations'')"
    by (simp add: parse_files)
  from ok restoreFromFile_succeeds_iff_truthy [of host_files file_minimal raw_example]
  have yes: "success (fst (actions_backups_restoreFromFile host_files file_minimal raw_example))"
    "error_message (fst (actions_backups_restoreFromFile host_files file_minimal raw_example)) = None"
    by blast+
  from bad restoreFromFile_succeeds_iff_truthy [of host_files "''not json''" raw_example]
  have no: "\<not> success (fst (actions_backups_restoreFromFile host_files ''not json'' raw_example))"
    "snd (actions_backups_restoreFromFile host_files ''not json'' raw_example) = raw_example"
    by blast+
  have msg: "error_message (fst (actions_backups_restoreFromFile host_files ''not json'' raw_example))
      = Some ''Failed to parse backup file.''"
    by (simp add: actions_backups_restoreFromFile_def parse_files)
  have state: "snd (actions_backups_restoreFromFile host_files file_minimal raw_example)
      = defaults\<lparr>raw_backups := [backup_empty]\<rparr>"
    by (simp add: actions_backups_restoreFromFile_def parse_files truthy_property_def property_def
        restoreStateFromData_def property_or_def raw_example_def defaults_def reify_def)
  have "actions_backups_restoreFromFile host_files ''not json'' raw_example
      = (\<lparr>success = False, error_message = Some ''Failed to parse backup file.''\<rparr>, raw_example)"
    using no msg by (cases "actions_backups_restoreFromFile host_files ''not json'' raw_example") simp
  with yes state show ?thesis by simp
qed

subsection \<open>Restoring a backup\<close>

text \<open>
  What \<open>backups.restore\<close> does, in terms of the render \<open>c\<close> it reads: it throws when no
  backup of \<open>c\<close> has the id; when the first backup of the id in \<open>c\<close> has data that parse to
  a value other than \<open>null\<close>, every tracked cell is overwritten with the property of its
  name if that is truthy and otherwise with its fallback, the empty array or, for the
  settings, \<open>mockSettings\<close>; the current backups stay.
\<close>

lemma restore_reads_render:
  "(find (\<lambda>b. backup_id b = backupId) (raw_backups c) = None
      \<longrightarrow> actions_backups_restore h c backupId r = Inl BackupNotFound)
   \<and> (find (\<lambda>b. backup_id b = backupId) (raw_backups c) = Some backup
        \<and> JSON_parse h (backup_data backup) = Some parsedData \<and> parsedData \<noteq> JNull
      \<longrightarrow> actions_backups_restore h c backupId r
          = Inr \<lparr>raw_donors = property_or parsedData ''donors'' (JArray []),
                 raw_donations = property_or parsedData ''donations'' (JArray []),
                 raw_pledges = property_or parsedData ''pledges'' (JArray []),
                 raw_recurringProfiles = property_or parsedData ''recurringProfiles'' (JArray []),
                 raw_users = property_or parsedData ''users'' (JArray []),
                 raw_roles = property_or parsedData ''roles'' (JArray []),
                 raw_settings = property_or parsedData ''settings'' (json_of_settings mockSettings),
                 raw_outbox = property_or parsedData ''outbox'' (JArray []),
                 raw_communicationQueue = property_or parsedData ''communicationQueue'' (JArray []),
                 raw_tags = property_or parsedData ''tags'' (JArray []),
                 raw_backups = raw_backups r\<rparr>)"
  by (cases r) (auto simp add: actions_backups_restore_def restoreStateFromData_def)

text \<open>
  Claim C8: \<open>backups.restore(backupId)\<close> throws when no backup of the backups has the id;
  when the backup exists it overwrites every tracked collection with the parsed value, a
  field missing from the parsed data being defaulted to an empty collection; the backups
  are never overwritten.

  The code at an input where the claim fails. On one \<open>actions\<close> object, built when there
  is no backup, \<open>backups.create()\<close> puts a backup into the backups and
  \<open>backups.restore\<close> of its id then throws: it reads the backups of its render, which are
  empty. The same call on the \<open>actions\<close> object of the next render restores the store.
\<close>

theorem restore_after_create_on_same_actions_object:
  "snd (actions_backups_create host_files (reify example_store) (reify example_store))
     = reify (example_store\<lparr>backups := [newBackup host_files (reify example_store)]\<rparr>)
   \<and> map backup_id
         (raw_backups (snd (actions_backups_create host_files (reify example_store)
                              (reify example_store))))
       = [''backup-1709300000000'']
   \<and> actions_backups_restore host_files (reify example_store) ''backup-1709300000000''
         (snd (actions_backups_create host_files (reify example_store) (reify example_store)))
       = Inl BackupNotFound
   \<and> actions_backups_restore host_files
         (snd (actions_backups_create host_files (reify example_store) (reify example_store)))
         ''backup-1709300000000''
         (snd (actions_backups_create host_files (reify example_store) (reify example_store)))
       = Inr (reify (example_store\<lparr>backups := [newBackup host_files (reify example_store)]\<rparr>))"
proof -
  let ?b = "newBackup host_files (reify example_store)"
  let ?s1 = "example_store\<lparr>backups := [?b]\<rparr>"
  have none: "backups example_store = []"
    by (simp add: example_store_def)
  have created: "snd (actions_backups_create host_files (reify example_store) (reify example_store))
      = reify ?s1"
    using create_of_store [of host_files example_store] by (simp add: none)
  have id: "backup_id ?b = ''backup-1709300000000''"
    by (simp add: newBackup_def now_files)
  have ids: "map backup_id (raw_backups (reify ?s1)) = [''backup-1709300000000'']"
    by (simp add: raw_backups_reify id)
  have stale: "actions_backups_restore host_files (reify example_store) ''backup-1709300000000''
      (reify ?s1) = Inl BackupNotFound"
    by (simp add: actions_backups_restore_def reify_def none)
  have host: "JSON_parse host_files (JSON_stringify host_files (stateToBackup (reify example_store)))
      = Some (jsonify (stateToBackup (reify example_store)))"
    by (simp add: stringify_snapshot parse_files)
  have found: "find (\<lambda>b. backup_id b = backup_id ?b) (raw_backups (reify ?s1)) = Some ?b"
    by (simp add: reify_def)
  have "actions_backups_restore host_files (reify ?s1) ''backup-1709300000000'' (reify ?s1)
      = Inr ((reify example_store)\<lparr>raw_backups := raw_backups (reify ?s1)\<rparr>)"
    using restore_of_created [OF host found, of "reify ?s1"]
    by (simp add: id jsonify_example_store)
  then have fresh: "actions_backups_restore host_files (reify ?s1) ''backup-1709300000000''
      (reify ?s1) = Inr (reify ?s1)"
    by (simp add: reify_def)
  from ids stale fresh show ?thesis
    unfolding created by simp
qed

end
